theory Spec2Isabelle
  imports Main
begin

section \<open>The signaling conductor of conductor\_ws.cpp\<close>

text \<open>
  A shallow embedding of \<^verbatim>\<open>src/janus_win/conductor_ws.cpp\<close>. The class
  \<^verbatim>\<open>ConductorWs\<close> becomes a record of its member variables together with the
  trace of the calls it has made on its collaborators (the media engine, the
  signaling client, the main window, the log). Every member function becomes a
  function from the record to the updated record. Whatever a collaborator
  answers (whether a peer connection could be created, whether the client is
  connected, what the JSON reader makes of a text) is read from an environment
  record, so every theorem holds for every behaviour of the collaborators.

  A call through a null \<^verbatim>\<open>scoped_refptr\<close> and an exception that no handler of
  the function catches end the call: such a function returns a sum, with the
  fault on the left.

  \<^verbatim>\<open>RTC_DCHECK\<close> ends the process when its condition fails in a build with
  debug checks, and expands to nothing in a build without them. The flag
  \<^verbatim>\<open>RTC_DCHECK_IS_ON\<close> of the environment says which build runs. The two
  checks at the head of \<^verbatim>\<open>ConnectToPeer\<close> are embedded under that flag. The
  debug checks of the other functions are left out, and named where they
  are: those functions are embedded as the build without debug checks runs
  them.
\<close>

subsection \<open>JSON values and the library helpers that read them\<close>

text \<open>
  \<^verbatim>\<open>Json::Value\<close>. Floating point numbers are left out. An object is the list
  of its members; a name is looked up with \<^const>\<open>map_of\<close>.
\<close>

datatype json =
    JNull
  | JBool bool
  | JInt int
  | JString string
  | JArray "json list"
  | JObject "(string \<times> json) list"

datatype fault = NullPointerException | NumberFormatException | NullDereference | DcheckFailed

text \<open>Decimal numerals, written and read.\<close>

fun dec_nat :: "nat \<Rightarrow> string" where
  "dec_nat n =
     (if n < 10 then [char_of (48 + n)]
      else dec_nat (n div 10) @ [char_of (48 + n mod 10)])"

declare dec_nat.simps [simp del]

definition dec_int :: "int \<Rightarrow> string" where
  "dec_int i = (if i < 0 then CHR ''-'' # dec_nat (nat (- i)) else dec_nat (nat i))"

definition is_digit :: "char \<Rightarrow> bool" where
  "is_digit c = (48 \<le> (of_char c :: nat) \<and> (of_char c :: nat) \<le> 57)"

definition parse_digits :: "string \<Rightarrow> int option" where
  "parse_digits s =
     (if s \<noteq> [] \<and> list_all is_digit s
      then Some (int (foldl (\<lambda>a c. 10 * a + (of_char c - 48)) 0 s))
      else None)"

definition parse_decimal :: "string \<Rightarrow> int option" where
  "parse_decimal s =
     (case s of
        [] \<Rightarrow> None
      | c # cs \<Rightarrow>
          if c = CHR ''-'' then map_option uminus (parse_digits cs)
          else if c = CHR ''+'' then parse_digits cs
          else parse_digits s)"

definition INT_MIN :: int where "INT_MIN = - 2147483648"
definition INT_MAX :: int where "INT_MAX = 2147483647"

definition is_space :: "char \<Rightarrow> bool" where
  "is_space c = ((of_char c :: nat) = 32 \<or> (9 \<le> (of_char c :: nat) \<and> (of_char c :: nat) \<le> 13))"

text \<open>
  \<^verbatim>\<open>strtol(s, &end, 10)\<close> as \<^verbatim>\<open>rtc::GetIntFromJson\<close> uses it: the whole
  text has to be consumed and the value has to fit an \<^verbatim>\<open>int\<close>.
\<close>

definition strtol_int :: "string \<Rightarrow> int option" where
  "strtol_int s =
     (case parse_decimal (dropWhile is_space s) of
        None \<Rightarrow> None
      | Some v \<Rightarrow> if INT_MIN \<le> v \<and> v \<le> INT_MAX then Some v else None)"

text \<open>
  The helpers of \<^verbatim>\<open>rtc_base/json.h\<close>. They return false and leave the output
  untouched when the value is no object, has no such member, or the member
  cannot be converted; here that is \<^const>\<open>None\<close>.
\<close>

definition GetValueFromJsonObject :: "json \<Rightarrow> string \<Rightarrow> json option" where
  "GetValueFromJsonObject v k = (case v of JObject ms \<Rightarrow> map_of ms k | _ \<Rightarrow> None)"

definition GetStringFromJson :: "json \<Rightarrow> string option" where
  "GetStringFromJson v =
     (case v of
        JString s \<Rightarrow> Some s
      | JBool b \<Rightarrow> Some (if b then ''true'' else ''false'')
      | JInt i \<Rightarrow> Some (dec_int i)
      | _ \<Rightarrow> None)"

definition GetIntFromJson :: "json \<Rightarrow> int option" where
  "GetIntFromJson v =
     (case v of
        JString s \<Rightarrow> strtol_int s
      | JNull \<Rightarrow> Some 0
      | JBool b \<Rightarrow> Some (if b then 1 else 0)
      | JInt i \<Rightarrow> if INT_MIN \<le> i \<and> i \<le> INT_MAX then Some i else None
      | _ \<Rightarrow> None)"

definition GetStringFromJsonObject :: "json \<Rightarrow> string \<Rightarrow> string option" where
  "GetStringFromJsonObject v k =
     (case GetValueFromJsonObject v k of None \<Rightarrow> None | Some x \<Rightarrow> GetStringFromJson x)"

definition GetIntFromJsonObject :: "json \<Rightarrow> string \<Rightarrow> int option" where
  "GetIntFromJsonObject v k =
     (case GetValueFromJsonObject v k of None \<Rightarrow> None | Some x \<Rightarrow> GetIntFromJson x)"

text \<open>
  \<^verbatim>\<open>jmessage[name] = value\<close> on a \<^verbatim>\<open>Json::Value\<close> that is null or an object.
\<close>

fun json_set :: "string \<Rightarrow> json \<Rightarrow> json \<Rightarrow> json" where
  "json_set k x (JObject ms) =
     JObject (if k \<in> fst ` set ms then map (\<lambda>(n, y). if n = k then (n, x) else (n, y)) ms
              else ms @ [(k, x)])"
| "json_set k x v = JObject [(k, x)]"

text \<open>Names used for the JSON objects (lines 20 to 28).\<close>

definition kCandidateSdpMidName :: string where "kCandidateSdpMidName = ''sdpMid''"
definition kCandidateSdpMlineIndexName :: string where "kCandidateSdpMlineIndexName = ''sdpMLineIndex''"
definition kCandidateSdpName :: string where "kCandidateSdpName = ''candidate''"
definition kSessionDescriptionTypeName :: string where "kSessionDescriptionTypeName = ''type''"
definition kSessionDescriptionSdpName :: string where "kSessionDescriptionSdpName = ''sdp''"
definition kJanusOptName :: string where "kJanusOptName = ''janus''"

subsection \<open>Descriptions, candidates, tracks\<close>

datatype SdpType = kOffer | kPrAnswer | kAnswer

fun SdpTypeToString :: "SdpType \<Rightarrow> string" where
  "SdpTypeToString kOffer = ''offer''"
| "SdpTypeToString kPrAnswer = ''pranswer''"
| "SdpTypeToString kAnswer = ''answer''"

definition SdpTypeFromString :: "string \<Rightarrow> SdpType option" where
  "SdpTypeFromString s =
     (if s = ''offer'' then Some kOffer
      else if s = ''pranswer'' then Some kPrAnswer
      else if s = ''answer'' then Some kAnswer
      else None)"

text \<open>
  A session description is its type and the text that \<^verbatim>\<open>ToString\<close> writes;
  a candidate is its three fields, the text being absent when \<^verbatim>\<open>ToString\<close>
  fails.
\<close>

record SessionDescription =
  sd_type :: SdpType
  sd_sdp :: string

record IceCandidate =
  sdp_mid :: string
  sdp_mline_index :: int
  cand_sdp :: "string option"

datatype track_kind = kAudioKind | kVideoKind

record track =
  kind :: track_kind
  label :: string

type_synonym sender = "track \<times> string list"

record PeerConnection =
  enable_dtls_srtp :: bool
  senders :: "sender list"

datatype UI = CONNECT_TO_SERVER | LIST_PEERS | STREAMING

datatype ui_callback =
    PEER_CONNECTION_CLOSED
  | SEND_MESSAGE_TO_PEER "string option"
  | NEW_TRACK_ADDED track
  | TRACK_REMOVED track
  | OTHER_CALLBACK int

datatype severity = INFO | WARNING | LS_ERROR | ANDROID_INFO | ANDROID_DEBUG | ANDROID_ERROR

subsection \<open>The calls made on the collaborators\<close>

datatype call =
    Log severity string
  | ReportError string
  | ClientRegisterObserver
  | WndRegisterObserver
  | MessageBox string string bool
  | StopLocalRenderer
  | StopRemoteRenderer
  | StartLocalRenderer track
  | StartRemoteRenderer track
  | SwitchToPeerList "(int \<times> string) list"
  | SwitchToConnectUI
  | SwitchToStreamingUI
  | QueueUIThreadCallback ui_callback
  | SignOut
  | Connect string string
  | SendToPeer int string
  | SendHangUp int
  | CreatePeerConnectionFactory
  | FactoryCreatePeerConnection bool string
  | AddTrack track "string list"
  | CreateOffer
  | CreateAnswer
  | SetLocalDescription SessionDescription
  | SetRemoteDescription "SessionDescription option"
  | AddIceCandidate IceCandidate
  | ReleaseTrack track
  | InvokeSuccess nat json
  | InvokeError nat json
  | InvokeEvent nat json

fun is_engine_call :: "call \<Rightarrow> bool" where
  "is_engine_call CreatePeerConnectionFactory = True"
| "is_engine_call (FactoryCreatePeerConnection d u) = True"
| "is_engine_call (AddTrack t ids) = True"
| "is_engine_call CreateOffer = True"
| "is_engine_call CreateAnswer = True"
| "is_engine_call (SetLocalDescription d) = True"
| "is_engine_call (SetRemoteDescription d) = True"
| "is_engine_call (AddIceCandidate c) = True"
| "is_engine_call c = False"

fun is_transport_call :: "call \<Rightarrow> bool" where
  "is_transport_call SignOut = True"
| "is_transport_call (Connect a b) = True"
| "is_transport_call (SendToPeer p m) = True"
| "is_transport_call (SendHangUp p) = True"
| "is_transport_call c = False"

subsection \<open>The environment: what the collaborators answer\<close>

record env =
  json_parse :: "string \<Rightarrow> json option"
  json_write :: "json \<Rightarrow> string"
  factory_created :: bool
  pc_created :: "bool \<Rightarrow> bool"
  add_track_ok :: "track \<Rightarrow> bool"
  device_names :: "string list option"
  capturer_created :: "string \<Rightarrow> bool"
  sdp_valid :: "string \<Rightarrow> bool"
  candidate_valid :: "string \<Rightarrow> int \<Rightarrow> string \<Rightarrow> bool"
  add_ice_candidate_ok :: "IceCandidate \<Rightarrow> bool"
  is_connected :: bool
  IsSendingMessage :: bool
  send_to_peer_ok :: "int \<Rightarrow> string \<Rightarrow> bool"
  IsWindow :: bool
  current_ui :: UI
  peers :: "(int \<times> string) list"
  GetPeerConnectionString :: string
  kAudioLabel :: string
  kVideoLabel :: string
  kStreamId :: string
  RTC_DCHECK_IS_ON :: bool

subsection \<open>The conductor\<close>

text \<open>
  A transaction of the gateway protocol holds up to three callbacks, each of
  them possibly null; a callback is named by a number and calling it is a call
  in the trace.
\<close>

record JanusTransaction =
  success :: "nat option"
  error :: "nat option"
  event :: "nat option"

record ConductorWs =
  peer_id :: int
  loopback :: bool
  peer_connection :: "PeerConnection option"
  peer_connection_factory :: bool
  server :: string
  pending_messages :: "string list"
  transactions :: "string \<Rightarrow> JanusTransaction option"
  handles :: "int \<Rightarrow> bool"
  sessionId :: int
  trace :: "call list"

definition emit :: "call \<Rightarrow> ConductorWs \<Rightarrow> ConductorWs" where
  "emit c st = st\<lparr>trace := trace st @ [c]\<rparr>"

definition RTC_LOG :: "severity \<Rightarrow> string \<Rightarrow> ConductorWs \<Rightarrow> ConductorWs" where
  "RTC_LOG s m st = emit (Log s m) st"

text \<open>The constructor (lines 43 to 47).\<close>

definition ConductorWs_new :: "(string \<Rightarrow> JanusTransaction option) \<Rightarrow> (int \<Rightarrow> bool) \<Rightarrow> int \<Rightarrow> ConductorWs" where
  "ConductorWs_new ts hs sid =
     \<lparr>peer_id = - 1, loopback = False, peer_connection = None,
      peer_connection_factory = False, server = [], pending_messages = [],
      transactions = ts, handles = hs, sessionId = sid,
      trace = [ClientRegisterObserver, WndRegisterObserver]\<rparr>"

definition connection_active :: "ConductorWs \<Rightarrow> bool" where
  "connection_active st = (peer_connection st \<noteq> None)"

text \<open>\<^verbatim>\<open>DeletePeerConnection\<close> (lines 123 to 130).\<close>

definition DeletePeerConnection :: "ConductorWs \<Rightarrow> ConductorWs" where
  "DeletePeerConnection st =
     (emit StopRemoteRenderer (emit StopLocalRenderer st))
       \<lparr>peer_connection := None, peer_connection_factory := False,
        peer_id := - 1, loopback := False\<rparr>"

text \<open>\<^verbatim>\<open>Close\<close> (lines 57 to 60).\<close>

definition Close :: "ConductorWs \<Rightarrow> ConductorWs" where
  "Close st = DeletePeerConnection (emit SignOut st)"

text \<open>
  \<^verbatim>\<open>CreatePeerConnection\<close> (lines 107 to 121). The factory is dereferenced,
  which faults when it is null. The two \<^verbatim>\<open>RTC_DCHECK\<close> of lines 108 and 109
  are debug checks.
\<close>

definition CreatePeerConnection :: "env \<Rightarrow> ConductorWs \<Rightarrow> bool \<Rightarrow> fault + (bool \<times> ConductorWs)" where
  "CreatePeerConnection e st dtls =
     (if \<not> peer_connection_factory st then Inl NullDereference
      else
        let st1 = emit (FactoryCreatePeerConnection dtls (GetPeerConnectionString e)) st;
            st2 = st1\<lparr>peer_connection :=
                        (if pc_created e dtls
                         then Some \<lparr>enable_dtls_srtp = dtls, senders = []\<rparr> else None)\<rparr>
        in Inr (peer_connection st2 \<noteq> None, st2))"

text \<open>\<^verbatim>\<open>OpenVideoCaptureDevice\<close> (lines 474 to 502): the first device that opens.\<close>

definition OpenVideoCaptureDevice :: "env \<Rightarrow> string option" where
  "OpenVideoCaptureDevice e =
     (case device_names e of
        None \<Rightarrow> None
      | Some names \<Rightarrow> find (capturer_created e) names)"

text \<open>
  \<^verbatim>\<open>peer_connection_->AddTrack(track, stream_ids)\<close>: the call, and the new
  sender when the engine accepts the track.
\<close>

definition pc_AddTrack :: "env \<Rightarrow> track \<Rightarrow> string list \<Rightarrow> ConductorWs \<Rightarrow> fault + (bool \<times> ConductorWs)" where
  "pc_AddTrack e t ids st =
     (case peer_connection st of
        None \<Rightarrow> Inl NullDereference
      | Some pc \<Rightarrow>
          let st1 = emit (AddTrack t ids) st in
          if add_track_ok e t
          then Inr (True, st1\<lparr>peer_connection := Some (pc\<lparr>senders := senders pc @ [(t, ids)]\<rparr>)\<rparr>)
          else Inr (False, st1))"

text \<open>\<^verbatim>\<open>AddTracks\<close> (lines 504 to 539).\<close>

definition AddTracks :: "env \<Rightarrow> ConductorWs \<Rightarrow> fault + ConductorWs" where
  "AddTracks e st =
     (case peer_connection st of
        None \<Rightarrow> Inl NullDereference
      | Some pc \<Rightarrow>
          if senders pc \<noteq> [] then Inr st
          else if \<not> peer_connection_factory st then Inl NullDereference
          else
            (case pc_AddTrack e \<lparr>kind = kAudioKind, label = kAudioLabel e\<rparr> [kStreamId e] st of
               Inl f \<Rightarrow> Inl f
             | Inr (ok, st1) \<Rightarrow>
                 let st2 = (if ok then st1
                            else RTC_LOG LS_ERROR ''Failed to add audio track to PeerConnection: '' st1)
                 in
                 (case OpenVideoCaptureDevice e of
                    None \<Rightarrow>
                      Inr (emit SwitchToStreamingUI
                             (RTC_LOG LS_ERROR ''OpenVideoCaptureDevice failed'' st2))
                  | Some dev \<Rightarrow>
                      let video_track = \<lparr>kind = kVideoKind, label = kVideoLabel e\<rparr>;
                          st3 = emit (StartLocalRenderer video_track) st2
                      in
                      (case pc_AddTrack e video_track [kStreamId e] st3 of
                         Inl f \<Rightarrow> Inl f
                       | Inr (ok2, st4) \<Rightarrow>
                           Inr (emit SwitchToStreamingUI
                                  (if ok2 then st4
                                   else RTC_LOG LS_ERROR
                                          ''Failed to add video track to PeerConnection: '' st4))))))"

text \<open>
  \<^verbatim>\<open>InitializePeerConnection\<close> (lines 62 to 90). After a failed
  \<^verbatim>\<open>CreatePeerConnection\<close> the function does not return: it goes on to
  \<^verbatim>\<open>AddTracks\<close>, which dereferences the peer connection. The two
  \<^verbatim>\<open>RTC_DCHECK\<close> of lines 63 and 64 are debug checks.
\<close>

definition InitializePeerConnection :: "env \<Rightarrow> ConductorWs \<Rightarrow> fault + (bool \<times> ConductorWs)" where
  "InitializePeerConnection e st =
     (let st1 = (emit CreatePeerConnectionFactory st)
                  \<lparr>peer_connection_factory := factory_created e\<rparr>
      in
      if \<not> peer_connection_factory st1
      then Inr (False,
                DeletePeerConnection
                  (emit (MessageBox ''Error'' ''Failed to initialize PeerConnectionFactory'' True) st1))
      else
        (case CreatePeerConnection e st1 True of
           Inl f \<Rightarrow> Inl f
         | Inr (ok, st2) \<Rightarrow>
             let st3 = (if \<not> ok
                        then DeletePeerConnection
                               (emit (MessageBox ''Error'' ''CreatePeerConnection failed'' True) st2)
                        else st2)
             in
             (case AddTracks e st3 of
                Inl f \<Rightarrow> Inl f
              | Inr st4 \<Rightarrow> Inr (peer_connection st4 \<noteq> None, st4))))"

text \<open>\<^verbatim>\<open>StartLogin\<close> (lines 442 to 447) and \<^verbatim>\<open>OnServerConnectionFailure\<close> (lines 433 to 436).\<close>

definition StartLogin :: "env \<Rightarrow> ConductorWs \<Rightarrow> string \<Rightarrow> int \<Rightarrow> ConductorWs" where
  "StartLogin e st srv port =
     (if is_connected e then st
      else emit (Connect ''1234'' ''1111'') (st\<lparr>server := srv\<rparr>))"

definition OnServerConnectionFailure :: "ConductorWs \<Rightarrow> ConductorWs" where
  "OnServerConnectionFailure st =
     emit (MessageBox ''Error'' (''Failed to connect to '' @ server st) True) st"

text \<open>\<^verbatim>\<open>DisconnectFromServer\<close> (lines 449 to 452).\<close>

definition DisconnectFromServer :: "env \<Rightarrow> ConductorWs \<Rightarrow> ConductorWs" where
  "DisconnectFromServer e st = (if is_connected e then emit SignOut st else st)"

text \<open>
  \<^verbatim>\<open>ConnectToPeer\<close> (lines 454 to 472). Lines 455 and 456 are the debug checks
  \<^verbatim>\<open>RTC_DCHECK(peer_id_ == -1)\<close> and \<^verbatim>\<open>RTC_DCHECK(peer_id != -1)\<close>: in a build
  with debug checks the call ends there when a peer is bound or the peer asked
  for is \<open>-1\<close>. The test of the peer connection comes after them.
\<close>

definition ConnectToPeer :: "env \<Rightarrow> ConductorWs \<Rightarrow> int \<Rightarrow> fault + ConductorWs" where
  "ConnectToPeer e st p =
     (if RTC_DCHECK_IS_ON e \<and> peer_id st \<noteq> - 1 then Inl DcheckFailed
      else if RTC_DCHECK_IS_ON e \<and> p = - 1 then Inl DcheckFailed
      else if peer_connection st \<noteq> None
      then Inr (emit (MessageBox ''Error''
                        ''We only support connecting to one peer at a time'' True) st)
      else
        (case InitializePeerConnection e st of
           Inl f \<Rightarrow> Inl f
         | Inr (ok, st1) \<Rightarrow>
             if ok then Inr (emit CreateOffer (st1\<lparr>peer_id := p\<rparr>))
             else Inr (emit (MessageBox ''Error'' ''Failed to initialize PeerConnection'' True) st1)))"

text \<open>\<^verbatim>\<open>ReinitializePeerConnectionForLoopback\<close> (lines 92 to 105).\<close>

fun add_senders :: "env \<Rightarrow> sender list \<Rightarrow> ConductorWs \<Rightarrow> fault + ConductorWs" where
  "add_senders e [] st = Inr st"
| "add_senders e ((t, ids) # ss) st =
     (case pc_AddTrack e t ids st of
        Inl f \<Rightarrow> Inl f
      | Inr (ok, st1) \<Rightarrow> add_senders e ss st1)"

definition ReinitializePeerConnectionForLoopback :: "env \<Rightarrow> ConductorWs \<Rightarrow> fault + (bool \<times> ConductorWs)" where
  "ReinitializePeerConnectionForLoopback e st =
     (let st1 = st\<lparr>loopback := True\<rparr> in
      case peer_connection st1 of
        None \<Rightarrow> Inl NullDereference
      | Some pc \<Rightarrow>
          let snds = senders pc;
              st2 = st1\<lparr>peer_connection := None\<rparr>
          in
          (case CreatePeerConnection e st2 False of
             Inl f \<Rightarrow> Inl f
           | Inr (ok, st3) \<Rightarrow>
               if ok
               then (case add_senders e snds st3 of
                       Inl f \<Rightarrow> Inl f
                     | Inr st4 \<Rightarrow>
                         let st5 = emit CreateOffer st4
                         in Inr (peer_connection st5 \<noteq> None, st5))
               else Inr (peer_connection st3 \<noteq> None, st3)))"

text \<open>\<^verbatim>\<open>EnsureStreamingUI\<close> (lines 132 to 138), without its debug check.\<close>

definition EnsureStreamingUI :: "env \<Rightarrow> ConductorWs \<Rightarrow> ConductorWs" where
  "EnsureStreamingUI e st =
     (if IsWindow e \<and> current_ui e \<noteq> STREAMING then emit SwitchToStreamingUI st else st)"

text \<open>\<^verbatim>\<open>SendMessage\<close> (lines 652 to 655) and \<^verbatim>\<open>OnMessageSent\<close> (lines 428 to 431).\<close>

definition SendMessage :: "string \<Rightarrow> ConductorWs \<Rightarrow> ConductorWs" where
  "SendMessage json_object st =
     emit (QueueUIThreadCallback (SEND_MESSAGE_TO_PEER (Some json_object))) st"

definition OnMessageSent :: "ConductorWs \<Rightarrow> int \<Rightarrow> ConductorWs" where
  "OnMessageSent st err = emit (QueueUIThreadCallback (SEND_MESSAGE_TO_PEER None)) st"

text \<open>The observer of the peer connection (lines 144 to 181).\<close>

definition OnAddTrack :: "ConductorWs \<Rightarrow> string \<Rightarrow> track \<Rightarrow> ConductorWs" where
  "OnAddTrack st receiver_id t =
     emit (QueueUIThreadCallback (NEW_TRACK_ADDED t))
       (RTC_LOG INFO (''OnAddTrack '' @ receiver_id) st)"

definition OnRemoveTrack :: "ConductorWs \<Rightarrow> string \<Rightarrow> track \<Rightarrow> ConductorWs" where
  "OnRemoveTrack st receiver_id t =
     emit (QueueUIThreadCallback (TRACK_REMOVED t))
       (RTC_LOG INFO (''OnRemoveTrack '' @ receiver_id) st)"

text \<open>
  The JSON object of a candidate (lines 172, 173 and 179) and of a session
  description (lines 642 to 644), as the assignments build them.
\<close>

definition candidate_json :: "string \<Rightarrow> int \<Rightarrow> string \<Rightarrow> json" where
  "candidate_json mid idx sdp =
     json_set kCandidateSdpName (JString sdp)
       (json_set kCandidateSdpMlineIndexName (JInt idx)
          (json_set kCandidateSdpMidName (JString mid) JNull))"

definition description_json :: "SessionDescription \<Rightarrow> json" where
  "description_json desc =
     json_set kSessionDescriptionSdpName (JString (sd_sdp desc))
       (json_set kSessionDescriptionTypeName (JString (SdpTypeToString (sd_type desc))) JNull)"

definition OnIceCandidate :: "env \<Rightarrow> ConductorWs \<Rightarrow> IceCandidate \<Rightarrow> fault + ConductorWs" where
  "OnIceCandidate e st c =
     (let st0 = RTC_LOG INFO (''OnIceCandidate '' @ dec_int (sdp_mline_index c)) st in
      if loopback st0
      then (case peer_connection st0 of
              None \<Rightarrow> Inl NullDereference
            | Some pc \<Rightarrow>
                let st1 = emit (AddIceCandidate c) st0 in
                Inr (if \<not> add_ice_candidate_ok e c
                     then RTC_LOG WARNING ''Failed to apply the received candidate'' st1
                     else st1))
      else (case cand_sdp c of
              None \<Rightarrow> Inr (RTC_LOG LS_ERROR ''Failed to serialize candidate'' st0)
            | Some sdp \<Rightarrow>
                Inr (SendMessage
                       (json_write e (candidate_json (sdp_mid c) (sdp_mline_index c) sdp)) st0)))"

text \<open>The observer of the signaling client (lines 187 to 219).\<close>

definition OnSignedIn :: "env \<Rightarrow> ConductorWs \<Rightarrow> ConductorWs" where
  "OnSignedIn e st = emit (SwitchToPeerList (peers e)) (RTC_LOG INFO ''OnSignedIn'' st)"

definition OnDisconnected :: "env \<Rightarrow> ConductorWs \<Rightarrow> ConductorWs" where
  "OnDisconnected e st =
     (let st1 = DeletePeerConnection (RTC_LOG INFO ''OnDisconnected'' st) in
      if IsWindow e then emit SwitchToConnectUI st1 else st1)"

definition OnPeerConnected :: "env \<Rightarrow> ConductorWs \<Rightarrow> int \<Rightarrow> string \<Rightarrow> ConductorWs" where
  "OnPeerConnected e st p name =
     (let st1 = RTC_LOG INFO ''OnPeerConnected'' st in
      if current_ui e = LIST_PEERS then emit (SwitchToPeerList (peers e)) st1 else st1)"

definition OnPeerDisconnected :: "env \<Rightarrow> ConductorWs \<Rightarrow> int \<Rightarrow> ConductorWs" where
  "OnPeerDisconnected e st p =
     (let st1 = RTC_LOG INFO ''OnPeerDisconnected'' st in
      if p = peer_id st1
      then emit (QueueUIThreadCallback PEER_CONNECTION_CLOSED)
             (RTC_LOG INFO ''Our peer disconnected'' st1)
      else if current_ui e = LIST_PEERS then emit (SwitchToPeerList (peers e)) st1
      else st1)"

text \<open>\<^verbatim>\<open>DisconnectFromCurrentPeer\<close> (lines 541 to 550).\<close>

definition DisconnectFromCurrentPeer :: "env \<Rightarrow> ConductorWs \<Rightarrow> ConductorWs" where
  "DisconnectFromCurrentPeer e st =
     (let st0 = RTC_LOG INFO ''DisconnectFromCurrentPeer'' st;
          st1 = (if peer_connection st0 \<noteq> None
                 then DeletePeerConnection (emit (SendHangUp (peer_id st0)) st0)
                 else st0)
      in if IsWindow e then emit (SwitchToPeerList (peers e)) st1 else st1)"

text \<open>
  \<^verbatim>\<open>UIThreadCallback\<close> (lines 552 to 619). The message taken from the front of
  the queue is handed to \<^verbatim>\<open>SendToPeer\<close> and deleted whatever the answer.
\<close>

definition UIThreadCallback :: "env \<Rightarrow> ConductorWs \<Rightarrow> ui_callback \<Rightarrow> ConductorWs" where
  "UIThreadCallback e st cb =
     (case cb of
        PEER_CONNECTION_CLOSED \<Rightarrow>
          let st1 = DeletePeerConnection (RTC_LOG INFO ''PEER_CONNECTION_CLOSED'' st) in
          if IsWindow e
          then (if is_connected e then emit (SwitchToPeerList (peers e)) st1
                else emit SwitchToConnectUI st1)
          else DisconnectFromServer e st1
      | SEND_MESSAGE_TO_PEER data \<Rightarrow>
          let st0 = RTC_LOG INFO ''SEND_MESSAGE_TO_PEER'' st;
              st1 = (case data of
                       None \<Rightarrow> st0
                     | Some msg \<Rightarrow> st0\<lparr>pending_messages := pending_messages st0 @ [msg]\<rparr>);
              st2 = (case pending_messages st1 of
                       [] \<Rightarrow> st1
                     | msg # rest \<Rightarrow>
                         if IsSendingMessage e then st1
                         else
                           let st3 = emit (SendToPeer (peer_id st1) msg)
                                       (st1\<lparr>pending_messages := rest\<rparr>)
                           in
                           if \<not> send_to_peer_ok e (peer_id st1) msg \<and> peer_id st1 \<noteq> - 1
                           then DisconnectFromServer e (RTC_LOG LS_ERROR ''SendToPeer failed'' st3)
                           else st3)
          in if peer_connection st2 = None then st2\<lparr>peer_id := - 1\<rparr> else st2
      | NEW_TRACK_ADDED t \<Rightarrow>
          emit (ReleaseTrack t)
            (if kind t = kVideoKind then emit (StartRemoteRenderer t) st else st)
      | TRACK_REMOVED t \<Rightarrow> emit (ReleaseTrack t) st
      | OTHER_CALLBACK n \<Rightarrow> st)"

text \<open>
  \<^verbatim>\<open>webrtc::CreateSessionDescription\<close> and \<^verbatim>\<open>webrtc::CreateIceCandidate\<close>:
  null when the text does not parse.
\<close>

definition CreateSessionDescription :: "env \<Rightarrow> SdpType \<Rightarrow> string \<Rightarrow> SessionDescription option" where
  "CreateSessionDescription e t sdp =
     (if sdp_valid e sdp then Some \<lparr>sd_type = t, sd_sdp = sdp\<rparr> else None)"

definition CreateIceCandidate :: "env \<Rightarrow> string \<Rightarrow> int \<Rightarrow> string \<Rightarrow> IceCandidate option" where
  "CreateIceCandidate e mid idx sdp =
     (if candidate_valid e mid idx sdp
      then Some \<lparr>sdp_mid = mid, sdp_mline_index = idx, cand_sdp = Some sdp\<rparr> else None)"

text \<open>\<^verbatim>\<open>OnSuccess\<close> (lines 622 to 646) and \<^verbatim>\<open>OnFailure\<close> (lines 648 to 650).\<close>

definition OnSuccess :: "env \<Rightarrow> ConductorWs \<Rightarrow> SessionDescription \<Rightarrow> fault + ConductorWs" where
  "OnSuccess e st desc =
     (case peer_connection st of
        None \<Rightarrow> Inl NullDereference
      | Some pc \<Rightarrow>
          let st1 = emit (SetLocalDescription desc) st;
              sdp = sd_sdp desc
          in
          if loopback st1
          then Inr (emit (SetRemoteDescription (CreateSessionDescription e kAnswer sdp)) st1)
          else Inr (SendMessage (json_write e (description_json desc)) st1))"

definition OnFailure :: "ConductorWs \<Rightarrow> string \<Rightarrow> ConductorWs" where
  "OnFailure st msg = RTC_LOG LS_ERROR msg st"

subsection \<open>\<^verbatim>\<open>OnMessageFromPeer\<close> (lines 222 to 426)\<close>

text \<open>
  The body of the function holds, between its first parse of the message and
  its peer check, a fragment written against the Java API of the gateway client
  (\<^verbatim>\<open>JSONObject\<close>, \<^verbatim>\<open>transactions\<close>, \<^verbatim>\<open>handles\<close>, \<^verbatim>\<open>BigInteger\<close>). It is
  embedded as it stands, with the meaning those calls have in Java:
  \<^verbatim>\<open>optString\<close> gives the empty string for an absent member, \<^verbatim>\<open>get\<close> on a
  map gives null for an absent key, a field read through null raises
  \<^verbatim>\<open>NullPointerException\<close>, and \<^verbatim>\<open>new BigInteger(s)\<close> raises
  \<^verbatim>\<open>NumberFormatException\<close> unless \<open>s\<close> is a signed decimal numeral. The one
  handler of the fragment catches \<^verbatim>\<open>JSONException\<close> only. \<^verbatim>\<open>jo\<close> is the object
  the reader made of the message; a message that is no object makes
  \<^verbatim>\<open>new JSONObject(msg)\<close> raise \<^verbatim>\<open>JSONException\<close>. The \<^verbatim>\<open>RTC_DCHECK\<close> of lines
  223, 331 and 341 are debug checks.
\<close>

definition optString :: "env \<Rightarrow> json \<Rightarrow> string \<Rightarrow> string" where
  "optString e jo k =
     (case GetValueFromJsonObject jo k of
        None \<Rightarrow> []
      | Some JNull \<Rightarrow> []
      | Some (JString s) \<Rightarrow> s
      | Some (JBool b) \<Rightarrow> (if b then ''true'' else ''false'')
      | Some (JInt i) \<Rightarrow> dec_int i
      | Some v \<Rightarrow> json_write e v)"

text \<open>
  Lines 245 to 250 and 267 to 272 (\<^verbatim>\<open>success\<close>), lines 298 to 303
  (\<^verbatim>\<open>error\<close>): look the transaction up, call its callback, remove it.
\<close>

definition resolve_success :: "env \<Rightarrow> ConductorWs \<Rightarrow> json \<Rightarrow> fault + ConductorWs" where
  "resolve_success e st jo =
     (let transaction = optString e jo ''transaction'' in
      case transactions st transaction of
        None \<Rightarrow> Inl NullPointerException
      | Some jt \<Rightarrow>
          let st1 = (case success jt of None \<Rightarrow> st | Some cb \<Rightarrow> emit (InvokeSuccess cb jo) st)
          in Inr (st1\<lparr>transactions := (transactions st1)(transaction := None)\<rparr>))"

definition resolve_error :: "env \<Rightarrow> ConductorWs \<Rightarrow> json \<Rightarrow> fault + ConductorWs" where
  "resolve_error e st jo =
     (let transaction = optString e jo ''transaction'' in
      case transactions st transaction of
        None \<Rightarrow> Inl NullPointerException
      | Some jt \<Rightarrow>
          let st1 = (case error jt of None \<Rightarrow> st | Some cb \<Rightarrow> emit (InvokeError cb jo) st)
          in Inr (st1\<lparr>transactions := (transactions st1)(transaction := None)\<rparr>))"

text \<open>Lines 234 to 252: the tag read from the member \<^verbatim>\<open>type\<close>.\<close>

definition type_tag_block :: "env \<Rightarrow> ConductorWs \<Rightarrow> json \<Rightarrow> fault + ConductorWs" where
  "type_tag_block e st jmessage =
     (let janus_str = (case GetStringFromJsonObject jmessage kSessionDescriptionTypeName of
                         None \<Rightarrow> [] | Some s \<Rightarrow> s)
      in
      if janus_str \<noteq> []
      then (if janus_str = ''ack'' then Inr (RTC_LOG INFO ''Got an ack on session. '' st)
            else if janus_str = ''success'' then resolve_success e st jmessage
            else Inr st)
      else Inr st)"

text \<open>
  Lines 254 to 328: the tag read from the member \<^verbatim>\<open>janus\<close>. The boolean of
  the result says that the function returned inside the fragment.
\<close>

definition session_log :: "severity \<Rightarrow> string \<Rightarrow> ConductorWs \<Rightarrow> ConductorWs" where
  "session_log s m st = emit (Log s (m @ dec_int (sessionId st))) st"

text \<open>Lines 306 to 323: any other tag is looked up by its sender.\<close>

definition sender_block :: "env \<Rightarrow> ConductorWs \<Rightarrow> json \<Rightarrow> string \<Rightarrow> fault + (bool \<times> ConductorWs)" where
  "sender_block e st jo janus =
     (case parse_decimal (optString e jo ''sender'') of
        None \<Rightarrow> Inl NumberFormatException
      | Some sender \<Rightarrow>
          if \<not> handles st sender
          then Inr (False, emit (Log ANDROID_ERROR ''missing handle'') st)
          else if janus = ''event''
          then
            let st1 = session_log ANDROID_DEBUG ''Got a plugin event on session '' st;
                transaction = optString e jo ''transaction''
            in
            if transaction = [] then Inr (True, st1)
            else (case transactions st1 transaction of
                    None \<Rightarrow> Inr (False, st1)
                  | Some jt \<Rightarrow>
                      (case event jt of
                         None \<Rightarrow> Inr (False, st1)
                       | Some cb \<Rightarrow> Inr (False, emit (InvokeEvent cb jo) st1)))
          else Inr (False, st))"

definition janus_tag_block :: "env \<Rightarrow> ConductorWs \<Rightarrow> json \<Rightarrow> fault + (bool \<times> ConductorWs)" where
  "janus_tag_block e st jmessage =
     (case jmessage of
        JObject ms \<Rightarrow>
          let jo = jmessage;
              janus = optString e jo ''janus''
          in
          if janus = ''keepalive''
          then Inr (True, session_log ANDROID_INFO ''Got a keepalive on session '' st)
          else if janus = ''ack''
          then Inr (False, session_log ANDROID_INFO ''Got an ack on session '' st)
          else if janus = ''success''
          then (case resolve_success e st jo of Inl f \<Rightarrow> Inl f | Inr st1 \<Rightarrow> Inr (False, st1))
          else if janus = ''trickle''
          then Inr (False, st)
          else if janus = ''webrtcup''
          then Inr (False, session_log ANDROID_DEBUG ''Got a webrtcup event on session '' st)
          else if janus = ''hangup''
          then Inr (False, session_log ANDROID_DEBUG ''Got a hangup event on session '' st)
          else if janus = ''detached''
          then Inr (False, session_log ANDROID_DEBUG ''Got a detached event on session '' st)
          else if janus = ''media''
          then Inr (False, session_log ANDROID_DEBUG ''Got a media event on session '' st)
          else if janus = ''slowlink''
          then Inr (False, session_log ANDROID_DEBUG ''Got a slowlink event on session '' st)
          else if janus = ''error''
          then (case resolve_error e st jo of Inl f \<Rightarrow> Inl f | Inr st1 \<Rightarrow> Inr (False, st1))
          else sender_block e st jo janus
      | _ \<Rightarrow>
          Inr (False, emit (ReportError ''WebSocket message JSON parsing error: '') st))"

text \<open>
  Lines 330 to 346: bind the peer and create the peer connection when there is
  none, refuse a message of another peer when there is one. The boolean says
  that the function returned here.
\<close>

definition bind_peer :: "env \<Rightarrow> ConductorWs \<Rightarrow> int \<Rightarrow> fault + (bool \<times> ConductorWs)" where
  "bind_peer e st p =
     (if peer_connection st = None
      then (case InitializePeerConnection e (st\<lparr>peer_id := p\<rparr>) of
              Inl f \<Rightarrow> Inl f
            | Inr (ok, st1) \<Rightarrow>
                if \<not> ok
                then Inr (True,
                          emit SignOut
                            (RTC_LOG LS_ERROR
                               ''Failed to initialize our PeerConnection instance'' st1))
                else Inr (False, st1))
      else if p \<noteq> peer_id st
      then Inr (True,
                RTC_LOG WARNING
                  (''Received a message from unknown peer while already in a '' @
                   ''conversation with a different peer.'') st)
      else Inr (False, st))"

text \<open>
  Lines 354 to 419 read a signaling message off the JSON value before anything
  is done with it: a session description, the loopback marker, or a candidate.
  Each way of failing is one of the early returns of the source.
\<close>

datatype decode_error =
    UnknownSdpType string
  | NoSdpMember
  | SdpParseError
  | MissingCandidateMember
  | CandidateParseError

datatype signaling_message =
    LoopbackOffer
  | Description SessionDescription
  | Candidate IceCandidate

definition decode :: "env \<Rightarrow> json \<Rightarrow> decode_error + signaling_message" where
  "decode e jmessage =
     (let type_str = (case GetStringFromJsonObject jmessage kSessionDescriptionTypeName of
                        None \<Rightarrow> [] | Some s \<Rightarrow> s)
      in
      if type_str \<noteq> []
      then
        (if type_str = ''offer-loopback'' then Inr LoopbackOffer
         else
           (case SdpTypeFromString type_str of
              None \<Rightarrow> Inl (UnknownSdpType type_str)
            | Some t \<Rightarrow>
                (case GetStringFromJsonObject jmessage kSessionDescriptionSdpName of
                   None \<Rightarrow> Inl NoSdpMember
                 | Some sdp \<Rightarrow>
                     (case CreateSessionDescription e t sdp of
                        None \<Rightarrow> Inl SdpParseError
                      | Some d \<Rightarrow> Inr (Description d)))))
      else
        (case GetStringFromJsonObject jmessage kCandidateSdpMidName of
           None \<Rightarrow> Inl MissingCandidateMember
         | Some mid \<Rightarrow>
             (case GetIntFromJsonObject jmessage kCandidateSdpMlineIndexName of
                None \<Rightarrow> Inl MissingCandidateMember
              | Some idx \<Rightarrow>
                  (case GetStringFromJsonObject jmessage kCandidateSdpName of
                     None \<Rightarrow> Inl MissingCandidateMember
                   | Some sdp \<Rightarrow>
                       (case CreateIceCandidate e mid idx sdp of
                          None \<Rightarrow> Inl CandidateParseError
                        | Some c \<Rightarrow> Inr (Candidate c))))))"

fun decode_error_log :: "decode_error \<Rightarrow> call" where
  "decode_error_log (UnknownSdpType t) = Log LS_ERROR (''Unknown SDP type: '' @ t)"
| "decode_error_log NoSdpMember =
     Log WARNING ''Can't parse received session description message.''"
| "decode_error_log SdpParseError =
     Log WARNING ''Can't parse received session description message. SdpParseError was: ''"
| "decode_error_log MissingCandidateMember = Log WARNING ''Can't parse received message.''"
| "decode_error_log CandidateParseError =
     Log WARNING ''Can't parse received candidate message. SdpParseError was: ''"

text \<open>Lines 348 to 425: parse again, decode, and act on the message.\<close>

definition apply_message :: "env \<Rightarrow> ConductorWs \<Rightarrow> string \<Rightarrow> fault + ConductorWs" where
  "apply_message e st message =
     (case json_parse e message of
        None \<Rightarrow> Inr (RTC_LOG WARNING (''Received unknown message. '' @ message) st)
      | Some jmessage \<Rightarrow>
          (case decode e jmessage of
             Inl err \<Rightarrow> Inr (emit (decode_error_log err) st)
           | Inr LoopbackOffer \<Rightarrow>
               (case ReinitializePeerConnectionForLoopback e st of
                  Inl f \<Rightarrow> Inl f
                | Inr (ok, st1) \<Rightarrow>
                    if \<not> ok
                    then Inr (emit SignOut
                                (DeletePeerConnection
                                   (RTC_LOG LS_ERROR
                                      ''Failed to initialize our PeerConnection instance'' st1)))
                    else Inr st1)
           | Inr (Description d) \<Rightarrow>
               (case peer_connection st of
                  None \<Rightarrow> Inl NullDereference
                | Some pc \<Rightarrow>
                    let st1 = emit (SetRemoteDescription (Some d))
                                (RTC_LOG INFO ('' Received session description :'' @ message) st)
                    in Inr (if sd_type d = kOffer then emit CreateAnswer st1 else st1))
           | Inr (Candidate c) \<Rightarrow>
               (case peer_connection st of
                  None \<Rightarrow> Inl NullDereference
                | Some pc \<Rightarrow>
                    let st1 = emit (AddIceCandidate c) st in
                    Inr (if \<not> add_ice_candidate_ok e c
                         then RTC_LOG WARNING ''Failed to apply the received candidate'' st1
                         else RTC_LOG INFO ('' Received candidate :'' @ message) st1))))"

definition OnMessageFromPeer :: "env \<Rightarrow> ConductorWs \<Rightarrow> int \<Rightarrow> string \<Rightarrow> fault + ConductorWs" where
  "OnMessageFromPeer e st p message =
     (let st0 = RTC_LOG INFO (''Got wsmsg:'' @ message) st in
      case json_parse e message of
        None \<Rightarrow> Inr (RTC_LOG WARNING (''Received unknown message. '' @ message) st0)
      | Some jmessage \<Rightarrow>
          (case type_tag_block e st0 jmessage of
             Inl f \<Rightarrow> Inl f
           | Inr st1 \<Rightarrow>
               (case janus_tag_block e st1 jmessage of
                  Inl f \<Rightarrow> Inl f
                | Inr (returned, st2) \<Rightarrow>
                    if returned then Inr st2
                    else
                      (case bind_peer e st2 p of
                         Inl f \<Rightarrow> Inl f
                       | Inr (returned2, st3) \<Rightarrow>
                           if returned2 then Inr st3
                           else apply_message e st3 message))))"

subsection \<open>Observations on a run\<close>

text \<open>
  The calls a step has added to the trace, the messages handed to
  \<^verbatim>\<open>SendToPeer\<close> so far, and what it means for the session to be torn down:
  no peer connection, no factory, no bound peer, loopback off, and both
  renderers stopped once by the step.
\<close>

definition new_calls :: "ConductorWs \<Rightarrow> ConductorWs \<Rightarrow> call list" where
  "new_calls st st' = drop (length (trace st)) (trace st')"

fun sent_of :: "call \<Rightarrow> string list" where
  "sent_of (SendToPeer p m) = [m]"
| "sent_of c = []"

definition delivered :: "ConductorWs \<Rightarrow> string list" where
  "delivered st = concat (map sent_of (trace st))"

fun is_renderer_stop :: "call \<Rightarrow> bool" where
  "is_renderer_stop StopLocalRenderer = True"
| "is_renderer_stop StopRemoteRenderer = True"
| "is_renderer_stop c = False"

fun is_ui_callback :: "call \<Rightarrow> bool" where
  "is_ui_callback (QueueUIThreadCallback cb) = True"
| "is_ui_callback c = False"

definition torn_down :: "ConductorWs \<Rightarrow> ConductorWs \<Rightarrow> bool" where
  "torn_down st st' =
     (\<not> connection_active st' \<and> \<not> peer_connection_factory st' \<and>
      peer_id st' = - 1 \<and> \<not> loopback st' \<and>
      filter is_renderer_stop (new_calls st st') = [StopLocalRenderer, StopRemoteRenderer])"

text \<open>
  Calls that leave the session alone: the logs and the callbacks of the
  transaction table. The session is untouched between two states when the
  members below agree and every call added is of that kind; in particular no
  call went to the engine, the transport, the renderers or the UI thread.
\<close>

fun is_bookkeeping :: "call \<Rightarrow> bool" where
  "is_bookkeeping (Log s m) = True"
| "is_bookkeeping (ReportError m) = True"
| "is_bookkeeping (InvokeSuccess cb jo) = True"
| "is_bookkeeping (InvokeError cb jo) = True"
| "is_bookkeeping (InvokeEvent cb jo) = True"
| "is_bookkeeping c = False"

definition adds_only :: "(call \<Rightarrow> bool) \<Rightarrow> ConductorWs \<Rightarrow> ConductorWs \<Rightarrow> bool" where
  "adds_only P st st' =
     (take (length (trace st)) (trace st') = trace st \<and> list_all P (new_calls st st'))"

definition session_untouched :: "ConductorWs \<Rightarrow> ConductorWs \<Rightarrow> bool" where
  "session_untouched st st' =
     (peer_connection st' = peer_connection st \<and>
      peer_connection_factory st' = peer_connection_factory st \<and>
      peer_id st' = peer_id st \<and> loopback st' = loopback st \<and>
      server st' = server st \<and>
      pending_messages st' = pending_messages st \<and>
      adds_only is_bookkeeping st st')"

text \<open>Entries of the transaction table are removed, never added or changed.\<close>

definition only_removed :: "ConductorWs \<Rightarrow> ConductorWs \<Rightarrow> bool" where
  "only_removed st st' =
     (\<forall>t. transactions st' t = transactions st t \<or> transactions st' t = None)"

text \<open>
  The calls by which a peer connection is set up, and the calls by which a
  decoded message is acted on.
\<close>

fun is_setup_call :: "call \<Rightarrow> bool" where
  "is_setup_call (Log s m) = True"
| "is_setup_call CreatePeerConnectionFactory = True"
| "is_setup_call (FactoryCreatePeerConnection d u) = True"
| "is_setup_call (AddTrack t ids) = True"
| "is_setup_call (StartLocalRenderer t) = True"
| "is_setup_call SwitchToStreamingUI = True"
| "is_setup_call c = False"

fun is_message_action :: "call \<Rightarrow> bool" where
  "is_message_action (SetRemoteDescription d) = True"
| "is_message_action CreateAnswer = True"
| "is_message_action CreateOffer = True"
| "is_message_action (AddIceCandidate c) = True"
| "is_message_action c = False"

subsection \<open>The outbound queue driven by the transport\<close>

text \<open>
  Modelled from the spec: the signaling client \<^verbatim>\<open>PeerConnectionWsClient\<close> and the
  main window are declared outside \<^verbatim>\<open>src/\<close>. The spec gives the transport one
  in-flight slot (\<^verbatim>\<open>hasInFlight\<close>, here the answer of \<^verbatim>\<open>IsSendingMessage\<close>): a
  \<^verbatim>\<open>sendToPeer\<close> that the transport accepts occupies the slot, and the transport
  frees it when it reports the completion through \<^verbatim>\<open>onTransportSendComplete\<close>
  (\<^verbatim>\<open>OnMessageSent\<close>). The main window is the mailbox of the spec: after a call
  of the conductor, the UI thread runs the callbacks which that call has queued
  with \<^verbatim>\<open>QueueUIThreadCallback\<close>, in the order in which it queued them, and
  nothing else. The boolean beside the conductor is the slot.
\<close>

datatype queue_event = Enqueue string | DeliveryComplete

fun accepted :: "env \<Rightarrow> call \<Rightarrow> bool" where
  "accepted e (SendToPeer p m) = send_to_peer_ok e p m"
| "accepted e c = False"

fun callback_of :: "call \<Rightarrow> ui_callback list" where
  "callback_of (QueueUIThreadCallback cb) = [cb]"
| "callback_of c = []"

definition queued_by :: "ConductorWs \<Rightarrow> ConductorWs \<Rightarrow> ui_callback list" where
  "queued_by st st' = concat (map callback_of (new_calls st st'))"

definition run_callback :: "env \<Rightarrow> ConductorWs \<times> bool \<Rightarrow> ui_callback \<Rightarrow> ConductorWs \<times> bool" where
  "run_callback e sb cb =
     (case sb of
        (st, busy) \<Rightarrow>
          let st' = UIThreadCallback (e\<lparr>IsSendingMessage := busy\<rparr>) st cb
          in (st', busy \<or> list_ex (accepted e) (new_calls st st')))"

definition run_queued :: "env \<Rightarrow> ConductorWs \<Rightarrow> ConductorWs \<times> bool \<Rightarrow> ConductorWs \<times> bool" where
  "run_queued e st sb = foldl (run_callback e) sb (queued_by st (fst sb))"

fun queue_step :: "env \<Rightarrow> ConductorWs \<times> bool \<Rightarrow> queue_event \<Rightarrow> ConductorWs \<times> bool" where
  "queue_step e (st, busy) (Enqueue m) = run_queued e st (SendMessage m st, busy)"
| "queue_step e (st, busy) DeliveryComplete = run_queued e st (OnMessageSent st 0, False)"

definition queue_run :: "env \<Rightarrow> ConductorWs \<times> bool \<Rightarrow> queue_event list \<Rightarrow> ConductorWs \<times> bool" where
  "queue_run e sb evs = foldl (queue_step e) sb evs"

fun enqueued :: "queue_event list \<Rightarrow> string list" where
  "enqueued [] = []"
| "enqueued (Enqueue m # evs) = m # enqueued evs"
| "enqueued (DeliveryComplete # evs) = enqueued evs"

subsection \<open>Concrete collaborators and states\<close>

text \<open>
  One environment in which everything succeeds and no debug check is compiled
  in, whose reader knows a handful of texts and whose writer writes them, and
  two states: the conductor as constructed, and a conductor bound to peer 7.
\<close>

definition demo_messages :: "(string \<times> json) list" where
  "demo_messages =
     [(''ack'', JObject [(''janus'', JString ''ack'')]),
      (''success-t1'', JObject [(''janus'', JString ''success''), (''transaction'', JString ''t1'')]),
      (''error-t9'', JObject [(''janus'', JString ''error''), (''transaction'', JString ''t9'')]),
      (''success-t9'', JObject [(''janus'', JString ''success''), (''transaction'', JString ''t9'')]),
      (''candidate'', JObject [(''sdpMid'', JString ''audio''), (''sdpMLineIndex'', JInt 0),
                               (''candidate'', JString ''a=candidate'')]),
      (''bogus'', JObject [(''type'', JString ''bogus''), (''sdp'', JString ''v=0''),
                           (''sender'', JInt 1)]),
      (''loopback'', JObject [(''type'', JString ''offer-loopback''), (''janus'', JString ''ack'')]),
      (''offer'', JObject [(''type'', JString ''offer''), (''sdp'', JString ''v=0'')])]"

definition demo_write :: "json \<Rightarrow> string" where
  "demo_write j = (case find (\<lambda>tv. snd tv = j) demo_messages of None \<Rightarrow> [] | Some tv \<Rightarrow> fst tv)"

definition demo_env :: env where
  "demo_env =
     \<lparr>json_parse = map_of demo_messages, json_write = demo_write,
      factory_created = True, pc_created = (\<lambda>d. True), add_track_ok = (\<lambda>t. True),
      device_names = None, capturer_created = (\<lambda>n. False),
      sdp_valid = (\<lambda>s. True), candidate_valid = (\<lambda>m i s. True),
      add_ice_candidate_ok = (\<lambda>c. True),
      is_connected = True, IsSendingMessage = False, send_to_peer_ok = (\<lambda>p m. True),
      IsWindow = True, current_ui = LIST_PEERS, peers = [],
      GetPeerConnectionString = ''stun:stun.l.google.com:19302'',
      kAudioLabel = ''audio_label'', kVideoLabel = ''video_label'', kStreamId = ''stream_id'',
      RTC_DCHECK_IS_ON = False\<rparr>"

definition demo_new :: ConductorWs where
  "demo_new = ConductorWs_new Map.empty (\<lambda>h. False) 0"

definition demo_bound :: ConductorWs where
  "demo_bound =
     \<lparr>peer_id = 7, loopback = False,
      peer_connection = Some \<lparr>enable_dtls_srtp = True, senders = []\<rparr>,
      peer_connection_factory = True, server = [], pending_messages = [],
      transactions = [''t1'' \<mapsto> \<lparr>success = Some 1, error = Some 2, event = None\<rparr>],
      handles = (\<lambda>h. False), sessionId = 0, trace = []\<rparr>"

section \<open>Properties\<close>

subsection \<open>How the small steps change the record\<close>

lemma emit_fields [simp]:
  "peer_id (emit c st) = peer_id st"
  "loopback (emit c st) = loopback st"
  "peer_connection (emit c st) = peer_connection st"
  "peer_connection_factory (emit c st) = peer_connection_factory st"
  "server (emit c st) = server st"
  "pending_messages (emit c st) = pending_messages st"
  "transactions (emit c st) = transactions st"
  "handles (emit c st) = handles st"
  "sessionId (emit c st) = sessionId st"
  "trace (emit c st) = trace st @ [c]"
  by (simp_all add: emit_def)

lemma RTC_LOG_fields [simp]:
  "peer_id (RTC_LOG s m st) = peer_id st"
  "loopback (RTC_LOG s m st) = loopback st"
  "peer_connection (RTC_LOG s m st) = peer_connection st"
  "peer_connection_factory (RTC_LOG s m st) = peer_connection_factory st"
  "server (RTC_LOG s m st) = server st"
  "pending_messages (RTC_LOG s m st) = pending_messages st"
  "transactions (RTC_LOG s m st) = transactions st"
  "handles (RTC_LOG s m st) = handles st"
  "sessionId (RTC_LOG s m st) = sessionId st"
  "trace (RTC_LOG s m st) = trace st @ [Log s m]"
  by (simp_all add: RTC_LOG_def)

lemma DeletePeerConnection_fields [simp]:
  "peer_id (DeletePeerConnection st) = - 1"
  "loopback (DeletePeerConnection st) = False"
  "peer_connection (DeletePeerConnection st) = None"
  "peer_connection_factory (DeletePeerConnection st) = False"
  "server (DeletePeerConnection st) = server st"
  "pending_messages (DeletePeerConnection st) = pending_messages st"
  "transactions (DeletePeerConnection st) = transactions st"
  "handles (DeletePeerConnection st) = handles st"
  "sessionId (DeletePeerConnection st) = sessionId st"
  "trace (DeletePeerConnection st) = trace st @ [StopLocalRenderer, StopRemoteRenderer]"
  by (simp_all add: DeletePeerConnection_def)

lemma new_calls_append [simp]:
  "trace st' = trace st @ xs \<Longrightarrow> new_calls st st' = xs"
  by (simp add: new_calls_def)

text \<open>
  A step adds only calls of one kind when the new trace is the old one followed
  by calls of that kind.
\<close>

lemma adds_only_iff:
  "adds_only P st st' \<longleftrightarrow> (\<exists>xs. trace st' = trace st @ xs \<and> list_all P xs)"
proof
  assume a: "adds_only P st st'"
  then have t: "take (length (trace st)) (trace st') = trace st"
    and l: "list_all P (drop (length (trace st)) (trace st'))"
    by (simp_all only: adds_only_def new_calls_def)
  have "trace st' = take (length (trace st)) (trace st') @ drop (length (trace st)) (trace st')"
    by (simp only: append_take_drop_id)
  then have "trace st' = trace st @ drop (length (trace st)) (trace st')"
    by (simp only: t)
  with l show "\<exists>xs. trace st' = trace st @ xs \<and> list_all P xs" by blast
next
  assume "\<exists>xs. trace st' = trace st @ xs \<and> list_all P xs"
  then obtain xs where "trace st' = trace st @ xs" "list_all P xs" by blast
  then show "adds_only P st st'" by (simp add: adds_only_def new_calls_def)
qed

lemma adds_only_refl [simp]: "adds_only P st st"
  by (simp add: adds_only_iff)

lemma adds_only_trans:
  "adds_only P st st1 \<Longrightarrow> adds_only P st1 st2 \<Longrightarrow> adds_only P st st2"
  by (auto simp add: adds_only_iff)

lemma adds_only_mono:
  "adds_only P st st' \<Longrightarrow> (\<And>c. P c \<Longrightarrow> Q c) \<Longrightarrow> adds_only Q st st'"
  by (auto simp add: adds_only_iff list_all_iff)

lemma adds_only_emit: "P c \<Longrightarrow> adds_only P st (emit c st)"
  by (simp add: adds_only_iff)

lemma adds_only_emit_after:
  "adds_only P st st1 \<Longrightarrow> P c \<Longrightarrow> adds_only P st (emit c st1)"
  using adds_only_trans [OF _ adds_only_emit] by blast

lemma adds_only_snoc:
  "adds_only P st st1 \<Longrightarrow> trace st2 = trace st1 @ [c] \<Longrightarrow> P c \<Longrightarrow> adds_only P st st2"
  by (auto simp add: adds_only_iff)

lemma adds_only_from:
  "trace a = trace b \<Longrightarrow> adds_only P a st' = adds_only P b st'"
  by (simp add: adds_only_def new_calls_def)

lemma adds_only_filter:
  "adds_only P st st' \<Longrightarrow> (\<And>c. P c \<Longrightarrow> \<not> Q c) \<Longrightarrow> filter Q (new_calls st st') = []"
  by (auto simp add: adds_only_iff filter_empty_conv list_all_iff)

lemma session_untouched_refl [simp]: "session_untouched st st"
  by (simp add: session_untouched_def)

lemma session_untouched_trans:
  "session_untouched st st1 \<Longrightarrow> session_untouched st1 st2 \<Longrightarrow> session_untouched st st2"
  using adds_only_trans [of is_bookkeeping st st1 st2]
  by (simp add: session_untouched_def)

lemma session_untouched_emit:
  "is_bookkeeping c \<Longrightarrow> session_untouched st (emit c st)"
  by (simp add: session_untouched_def adds_only_emit)

lemma session_untouched_RTC_LOG [simp]: "session_untouched st (RTC_LOG s m st)"
  by (simp add: RTC_LOG_def session_untouched_emit)

lemma session_untouched_transactions:
  "session_untouched st st' \<Longrightarrow> session_untouched st (st'\<lparr>transactions := ts\<rparr>)"
  by (simp add: session_untouched_def adds_only_def new_calls_def)

lemma bookkeeping_is_quiet:
  "is_bookkeeping c \<Longrightarrow> \<not> is_engine_call c"
  "is_bookkeeping c \<Longrightarrow> \<not> is_transport_call c"
  "is_bookkeeping c \<Longrightarrow> \<not> is_ui_callback c"
  "is_bookkeeping c \<Longrightarrow> \<not> is_renderer_stop c"
  "is_bookkeeping c \<Longrightarrow> \<not> is_message_action c"
  by (cases c; simp)+

lemma session_untouched_quiet:
  assumes "session_untouched st st'"
  shows "filter is_engine_call (new_calls st st') = []"
    "filter is_transport_call (new_calls st st') = []"
    "filter is_ui_callback (new_calls st st') = []"
    "filter is_renderer_stop (new_calls st st') = []"
    "filter is_message_action (new_calls st st') = []"
  using assms adds_only_filter [of is_bookkeeping st st'] bookkeeping_is_quiet
  by (simp_all add: session_untouched_def)

lemma only_removed_refl [simp]: "only_removed st st"
  by (simp add: only_removed_def)

lemma only_removed_trans:
  "only_removed st st1 \<Longrightarrow> only_removed st1 st2 \<Longrightarrow> only_removed st st2"
proof -
  assume a: "only_removed st st1" and b: "only_removed st1 st2"
  show "only_removed st st2"
    unfolding only_removed_def
  proof
    fix t
    from a have "transactions st1 t = transactions st t \<or> transactions st1 t = None"
      by (simp add: only_removed_def)
    moreover from b have "transactions st2 t = transactions st1 t \<or> transactions st2 t = None"
      by (simp add: only_removed_def)
    ultimately show "transactions st2 t = transactions st t \<or> transactions st2 t = None"
      by auto
  qed
qed

lemma only_removed_same:
  "transactions st' = transactions st \<Longrightarrow> only_removed st st'"
  by (simp add: only_removed_def)

lemma only_removed_delete:
  "transactions st1 = transactions st \<Longrightarrow>
   only_removed st (st1\<lparr>transactions := (transactions st1)(t := None)\<rparr>)"
  by (simp add: only_removed_def)

lemma only_removed_RTC_LOG [simp]: "only_removed st (RTC_LOG s m st)"
  by (simp add: only_removed_def)

lemma only_removed_emit [simp]: "only_removed st (emit c st)"
  by (simp add: only_removed_def)

subsection \<open>The concrete reader\<close>

lemma demo_parse:
  "json_parse demo_env ''ack'' = Some (JObject [(''janus'', JString ''ack'')])"
  "json_parse demo_env ''success-t1'' =
     Some (JObject [(''janus'', JString ''success''), (''transaction'', JString ''t1'')])"
  "json_parse demo_env ''error-t9'' =
     Some (JObject [(''janus'', JString ''error''), (''transaction'', JString ''t9'')])"
  "json_parse demo_env ''success-t9'' =
     Some (JObject [(''janus'', JString ''success''), (''transaction'', JString ''t9'')])"
  "json_parse demo_env ''bogus'' =
     Some (JObject [(''type'', JString ''bogus''), (''sdp'', JString ''v=0''),
                    (''sender'', JInt 1)])"
  "json_parse demo_env ''offer'' =
     Some (JObject [(''type'', JString ''offer''), (''sdp'', JString ''v=0'')])"
  by (simp_all add: demo_env_def demo_messages_def)

lemma demo_junk: "json_parse demo_env ''junk'' = None"
  by (simp add: demo_env_def demo_messages_def)

lemma demo_parse_env:
  "json_parse (demo_env\<lparr>factory_created := False\<rparr>) = json_parse demo_env"
  by (simp add: demo_env_def)

lemma demo_parse_loopback:
  "json_parse (demo_env\<lparr>pc_created := (\<lambda>d. d)\<rparr>) ''loopback'' =
     Some (JObject [(''type'', JString ''offer-loopback''), (''janus'', JString ''ack'')])"
  by (simp add: demo_env_def demo_messages_def)

lemma optString_simps:
  "optString e (JObject ms) k =
     (case map_of ms k of
        None \<Rightarrow> []
      | Some JNull \<Rightarrow> []
      | Some (JString s) \<Rightarrow> s
      | Some (JBool b) \<Rightarrow> (if b then ''true'' else ''false'')
      | Some (JInt i) \<Rightarrow> dec_int i
      | Some v \<Rightarrow> json_write e v)"
  by (simp add: optString_def GetValueFromJsonObject_def)

lemma GetStringFromJsonObject_simps:
  "GetStringFromJsonObject (JObject ms) k =
     (case map_of ms k of None \<Rightarrow> None | Some x \<Rightarrow> GetStringFromJson x)"
  by (simp add: GetStringFromJsonObject_def GetValueFromJsonObject_def)

lemma sender_one: "parse_decimal (dec_int 1) = Some 1"
  by code_simp

lemma decode_bogus:
  "decode e (JObject [(''type'', JString ''bogus''), (''sdp'', JString ''v=0''),
                     (''sender'', JInt 1)]) = Inl (UnknownSdpType ''bogus'')"
  by (simp add: decode_def GetStringFromJsonObject_simps GetStringFromJson_def
      kSessionDescriptionTypeName_def SdpTypeFromString_def)

lemma decode_loopback:
  "decode e (JObject [(''type'', JString ''offer-loopback''), (''janus'', JString ''ack'')]) =
     Inr LoopbackOffer"
  by (simp add: decode_def GetStringFromJsonObject_def GetValueFromJsonObject_def
      GetStringFromJson_def kSessionDescriptionTypeName_def)

subsection \<open>Logging in\<close>

text \<open>
  C10. For every server string and port, \<^verbatim>\<open>StartLogin\<close> invoked while the client
  is not connected stores the server and calls \<^verbatim>\<open>Connect\<close> with the fixed literals
  \<^verbatim>\<open>"1234"\<close> and \<^verbatim>\<open>"1111"\<close>, whatever the server and the port are; the stored
  server is what \<^verbatim>\<open>OnServerConnectionFailure\<close> later shows. Invoked while the
  client is connected, it makes no call and changes nothing.
\<close>

theorem StartLogin_fixed_credentials:
  "(\<not> is_connected e \<longrightarrow>
      StartLogin e st srv port =
        st\<lparr>server := srv, trace := trace st @ [Connect ''1234'' ''1111'']\<rparr> \<and>
      OnServerConnectionFailure (StartLogin e st srv port) =
        (StartLogin e st srv port)
          \<lparr>trace := trace st @ [Connect ''1234'' ''1111'',
                                 MessageBox ''Error'' (''Failed to connect to '' @ srv) True]\<rparr>) \<and>
   (is_connected e \<longrightarrow> StartLogin e st srv port = st)"
  by (simp add: StartLogin_def OnServerConnectionFailure_def emit_def)

text \<open>
  The witness of C10: logging in to \<^verbatim>\<open>janus.example.org\<close>, port 8188, first
  with a client that is not connected, then with one that is.
\<close>

theorem StartLogin_fixed_credentials_witness:
  "\<not> is_connected (demo_env\<lparr>is_connected := False\<rparr>) \<and>
   StartLogin (demo_env\<lparr>is_connected := False\<rparr>) demo_new ''janus.example.org'' 8188 =
     demo_new\<lparr>server := ''janus.example.org'',
              trace := [ClientRegisterObserver, WndRegisterObserver, Connect ''1234'' ''1111'']\<rparr> \<and>
   is_connected demo_env \<and>
   StartLogin demo_env demo_new ''janus.example.org'' 8188 = demo_new"
  using StartLogin_fixed_credentials
          [of "demo_env\<lparr>is_connected := False\<rparr>" demo_new "''janus.example.org''" 8188]
        StartLogin_fixed_credentials [of demo_env demo_new "''janus.example.org''" 8188]
  by (simp add: demo_env_def demo_new_def ConductorWs_new_def)

subsection \<open>Setting up the peer connection\<close>

text \<open>
  When the factory and the peer connection can be created,
  \<^verbatim>\<open>InitializePeerConnection\<close> succeeds whatever the tracks and the capture
  devices do, and it makes set-up calls only.
\<close>

lemma pc_AddTrack_setup:
  "peer_connection st = Some pc \<Longrightarrow>
   \<exists>ok st'. pc_AddTrack e t ids st = Inr (ok, st') \<and> peer_connection st' \<noteq> None \<and>
     peer_id st' = peer_id st \<and> loopback st' = loopback st \<and> server st' = server st \<and>
     peer_connection_factory st' = peer_connection_factory st \<and>
     pending_messages st' = pending_messages st \<and> transactions st' = transactions st \<and>
     trace st' = trace st @ [AddTrack t ids]"
  by (auto simp add: pc_AddTrack_def Let_def)

lemma AddTracks_setup:
  assumes "peer_connection st = Some pc" "peer_connection_factory st"
  shows "\<exists>st'. AddTracks e st = Inr st' \<and> peer_connection st' \<noteq> None \<and>
     peer_id st' = peer_id st \<and> loopback st' = loopback st \<and> server st' = server st \<and>
     pending_messages st' = pending_messages st \<and> transactions st' = transactions st \<and>
     adds_only is_setup_call st st'"
proof (cases "senders pc = []")
  case False
  with assms show ?thesis by (simp add: AddTracks_def)
next
  case True
  let ?audio = "\<lparr>kind = kAudioKind, label = kAudioLabel e\<rparr>"
  let ?video = "\<lparr>kind = kVideoKind, label = kVideoLabel e\<rparr>"
  from pc_AddTrack_setup [OF assms(1), of e ?audio "[kStreamId e]"] obtain ok st1 where
    a: "pc_AddTrack e ?audio [kStreamId e] st = Inr (ok, st1)" "peer_connection st1 \<noteq> None"
       "peer_id st1 = peer_id st" "loopback st1 = loopback st" "server st1 = server st"
       "pending_messages st1 = pending_messages st" "transactions st1 = transactions st"
       "trace st1 = trace st @ [AddTrack ?audio [kStreamId e]]"
    by blast
  define st2 where "st2 = (if ok then st1
       else RTC_LOG LS_ERROR ''Failed to add audio track to PeerConnection: '' st1)"
  have s2: "peer_connection st2 \<noteq> None" "peer_id st2 = peer_id st" "loopback st2 = loopback st"
    "server st2 = server st" "pending_messages st2 = pending_messages st"
    "transactions st2 = transactions st" "adds_only is_setup_call st st2"
    using a by (auto simp add: st2_def adds_only_iff)
  show ?thesis
  proof (cases "OpenVideoCaptureDevice e")
    case None
    with assms True a have "AddTracks e st =
        Inr (emit SwitchToStreamingUI (RTC_LOG LS_ERROR ''OpenVideoCaptureDevice failed'' st2))"
      by (simp add: AddTracks_def st2_def)
    with s2 show ?thesis
      by (simp add: RTC_LOG_def adds_only_emit_after)
  next
    case (Some dev)
    let ?st3 = "emit (StartLocalRenderer ?video) st2"
    from s2(1) obtain pc2 where "peer_connection ?st3 = Some pc2" by auto
    from pc_AddTrack_setup [OF this, of e ?video "[kStreamId e]"] obtain ok2 st4 where
      v: "pc_AddTrack e ?video [kStreamId e] ?st3 = Inr (ok2, st4)" "peer_connection st4 \<noteq> None"
       "peer_id st4 = peer_id ?st3" "loopback st4 = loopback ?st3" "server st4 = server ?st3"
       "pending_messages st4 = pending_messages ?st3" "transactions st4 = transactions ?st3"
       "trace st4 = trace ?st3 @ [AddTrack ?video [kStreamId e]]"
      by blast
    have "adds_only is_setup_call st ?st3" using s2(7) by (simp add: adds_only_emit_after)
    from adds_only_snoc [OF this v(8)] have s4: "adds_only is_setup_call st st4" by simp
    define st5 where "st5 = emit SwitchToStreamingUI
         (if ok2 then st4
          else RTC_LOG LS_ERROR ''Failed to add video track to PeerConnection: '' st4)"
    from assms True a Some v(1) have r: "AddTracks e st = Inr st5"
      by (simp add: AddTracks_def st2_def st5_def Let_def)
    have "adds_only is_setup_call st st5"
      using s4 by (simp add: st5_def RTC_LOG_def adds_only_emit_after)
    with r v s2 show ?thesis by (simp add: st5_def)
  qed
qed

lemma InitializePeerConnection_setup:
  assumes "factory_created e" "pc_created e True"
  shows "\<exists>st'. InitializePeerConnection e st = Inr (True, st') \<and> peer_connection st' \<noteq> None \<and>
     peer_id st' = peer_id st \<and> loopback st' = loopback st \<and> server st' = server st \<and>
     pending_messages st' = pending_messages st \<and> transactions st' = transactions st \<and>
     adds_only is_setup_call st st'"
proof -
  let ?st1 = "(emit CreatePeerConnectionFactory st)\<lparr>peer_connection_factory := True\<rparr>"
  let ?st2 = "(emit (FactoryCreatePeerConnection True (GetPeerConnectionString e)) ?st1)
                \<lparr>peer_connection := Some \<lparr>enable_dtls_srtp = True, senders = []\<rparr>\<rparr>"
  have c: "CreatePeerConnection e ?st1 True = Inr (True, ?st2)"
    using assms by (simp add: CreatePeerConnection_def Let_def)
  have "peer_connection ?st2 = Some \<lparr>enable_dtls_srtp = True, senders = []\<rparr>"
       "peer_connection_factory ?st2"
    by simp_all
  from AddTracks_setup [OF this, of e] obtain st' where
    a: "AddTracks e ?st2 = Inr st'" "peer_connection st' \<noteq> None"
       "peer_id st' = peer_id ?st2" "loopback st' = loopback ?st2" "server st' = server ?st2"
       "pending_messages st' = pending_messages ?st2" "transactions st' = transactions ?st2"
       "adds_only is_setup_call ?st2 st'"
    by blast
  have "adds_only is_setup_call st ?st2" by (simp add: adds_only_iff)
  from adds_only_trans [OF this a(8)] have t: "adds_only is_setup_call st st'" .
  have "InitializePeerConnection e st = Inr (True, st')"
    using assms c a(1,2) by (simp add: InitializePeerConnection_def Let_def)
  with a t show ?thesis by simp
qed

subsection \<open>One session at a time\<close>

lemma ConnectToPeer_bound:
  "peer_connection st \<noteq> None \<Longrightarrow> RTC_DCHECK_IS_ON e \<longrightarrow> peer_id st = - 1 \<and> p \<noteq> - 1 \<Longrightarrow>
   ConnectToPeer e st p =
     Inr (st\<lparr>trace := trace st @
              [MessageBox ''Error'' ''We only support connecting to one peer at a time'' True]\<rparr>)"
  by (auto simp add: ConnectToPeer_def emit_def)

lemma ConnectToPeer_debug_check:
  "RTC_DCHECK_IS_ON e \<Longrightarrow> peer_id st \<noteq> - 1 \<or> p = - 1 \<Longrightarrow>
   ConnectToPeer e st p = Inl DcheckFailed"
  by (auto simp add: ConnectToPeer_def)

lemma ConnectToPeer_new:
  assumes "factory_created e" "pc_created e True"
  shows "\<exists>st1. ConnectToPeer e (ConductorWs_new ts hs sid) 7 = Inr st1 \<and>
           peer_id st1 = 7 \<and> peer_connection st1 \<noteq> None"
proof -
  let ?new = "ConductorWs_new ts hs sid"
  from assms InitializePeerConnection_setup [of e ?new] obtain st' where
    i: "InitializePeerConnection e ?new = Inr (True, st')" "peer_connection st' \<noteq> None"
    by blast
  let ?st1 = "emit CreateOffer (st'\<lparr>peer_id := 7\<rparr>)"
  have n: "peer_connection ?new = None" "peer_id ?new = - 1"
    by (simp_all add: ConductorWs_new_def)
  have "ConnectToPeer e ?new 7 = Inr ?st1"
    using i n by (simp add: ConnectToPeer_def)
  moreover have "peer_id ?st1 = 7" "peer_connection ?st1 \<noteq> None" using i by simp_all
  ultimately show ?thesis by blast
qed

text \<open>
  C2, as amended. In a build without debug checks, for every peer \<open>p\<close>,
  \<^verbatim>\<open>ConnectToPeer\<close> called while a peer connection exists shows the error box
  and changes nothing else: the bound peer stays, no engine is initialised and
  no offer is requested; the same holds in a build with debug checks when its
  two checks pass. In a build with debug checks, a call on a conductor whose
  peer is bound ends at \<^verbatim>\<open>RTC_DCHECK(peer_id_ == -1)\<close>, before the error box.
  When the engine can be initialised, \<^verbatim>\<open>ConnectToPeer(7)\<close> on a new conductor
  binds peer 7 in either build; \<^verbatim>\<open>ConnectToPeer(9)\<close> right after it leaves the
  session bound to 7 in a build without debug checks and ends at the check in
  a build with them.
\<close>

theorem ConnectToPeer_rejects_second_session:
  "(peer_connection st \<noteq> None \<and> (RTC_DCHECK_IS_ON e \<longrightarrow> peer_id st = - 1 \<and> p \<noteq> - 1) \<longrightarrow>
      ConnectToPeer e st p =
        Inr (st\<lparr>trace := trace st @
                 [MessageBox ''Error'' ''We only support connecting to one peer at a time'' True]\<rparr>)) \<and>
   (RTC_DCHECK_IS_ON e \<and> (peer_id st \<noteq> - 1 \<or> p = - 1) \<longrightarrow>
      ConnectToPeer e st p = Inl DcheckFailed) \<and>
   (factory_created e \<and> pc_created e True \<longrightarrow>
      (\<exists>st1. ConnectToPeer e (ConductorWs_new ts hs sid) 7 = Inr st1 \<and>
             peer_id st1 = 7 \<and> peer_connection st1 \<noteq> None \<and>
             ConnectToPeer e st1 9 =
               (if RTC_DCHECK_IS_ON e then Inl DcheckFailed
                else Inr (st1\<lparr>trace := trace st1 @
                            [MessageBox ''Error''
                               ''We only support connecting to one peer at a time'' True]\<rparr>))))"
proof (intro conjI impI)
  assume "peer_connection st \<noteq> None \<and> (RTC_DCHECK_IS_ON e \<longrightarrow> peer_id st = - 1 \<and> p \<noteq> - 1)"
  then show "ConnectToPeer e st p =
        Inr (st\<lparr>trace := trace st @
                 [MessageBox ''Error'' ''We only support connecting to one peer at a time'' True]\<rparr>)"
    using ConnectToPeer_bound [of st e p] by blast
next
  assume "RTC_DCHECK_IS_ON e \<and> (peer_id st \<noteq> - 1 \<or> p = - 1)"
  then show "ConnectToPeer e st p = Inl DcheckFailed"
    using ConnectToPeer_debug_check [of e st p] by blast
next
  assume ok: "factory_created e \<and> pc_created e True"
  with ConnectToPeer_new [of e ts hs sid] obtain st1 where
    c: "ConnectToPeer e (ConductorWs_new ts hs sid) 7 = Inr st1" "peer_id st1 = 7"
       "peer_connection st1 \<noteq> None"
    by blast
  have "ConnectToPeer e st1 9 =
               (if RTC_DCHECK_IS_ON e then Inl DcheckFailed
                else Inr (st1\<lparr>trace := trace st1 @
                            [MessageBox ''Error''
                               ''We only support connecting to one peer at a time'' True]\<rparr>))"
  proof (cases "RTC_DCHECK_IS_ON e")
    case True
    with c(2) ConnectToPeer_debug_check [of e st1 9] show ?thesis by simp
  next
    case False
    with c(3) ConnectToPeer_bound [of st1 e 9] show ?thesis by simp
  qed
  with c show "\<exists>st1. ConnectToPeer e (ConductorWs_new ts hs sid) 7 = Inr st1 \<and>
             peer_id st1 = 7 \<and> peer_connection st1 \<noteq> None \<and>
             ConnectToPeer e st1 9 =
               (if RTC_DCHECK_IS_ON e then Inl DcheckFailed
                else Inr (st1\<lparr>trace := trace st1 @
                            [MessageBox ''Error''
                               ''We only support connecting to one peer at a time'' True]\<rparr>))"
    by blast
qed

text \<open>
  The witness of C2: a conductor bound to peer 7 is asked for peer 9, without
  debug checks and with them, and a new conductor is asked for peer 7 and then
  for peer 9 in a build with debug checks.
\<close>

theorem ConnectToPeer_rejects_second_session_witness:
  "peer_connection demo_bound \<noteq> None \<and> \<not> RTC_DCHECK_IS_ON demo_env \<and>
   ConnectToPeer demo_env demo_bound 9 =
     Inr (demo_bound\<lparr>trace := trace demo_bound @
            [MessageBox ''Error'' ''We only support connecting to one peer at a time'' True]\<rparr>) \<and>
   RTC_DCHECK_IS_ON (demo_env\<lparr>RTC_DCHECK_IS_ON := True\<rparr>) \<and> peer_id demo_bound \<noteq> - 1 \<and>
   ConnectToPeer (demo_env\<lparr>RTC_DCHECK_IS_ON := True\<rparr>) demo_bound 9 = Inl DcheckFailed \<and>
   factory_created (demo_env\<lparr>RTC_DCHECK_IS_ON := True\<rparr>) \<and>
   pc_created (demo_env\<lparr>RTC_DCHECK_IS_ON := True\<rparr>) True \<and>
   (\<exists>st1. ConnectToPeer (demo_env\<lparr>RTC_DCHECK_IS_ON := True\<rparr>)
            (ConductorWs_new Map.empty (\<lambda>h. False) 0) 7 = Inr st1 \<and>
          peer_id st1 = 7 \<and> peer_connection st1 \<noteq> None \<and>
          ConnectToPeer (demo_env\<lparr>RTC_DCHECK_IS_ON := True\<rparr>) st1 9 = Inl DcheckFailed)"
proof -
  let ?debug = "demo_env\<lparr>RTC_DCHECK_IS_ON := True\<rparr>"
  have h: "peer_connection demo_bound \<noteq> None" "\<not> RTC_DCHECK_IS_ON demo_env"
    "RTC_DCHECK_IS_ON ?debug" "peer_id demo_bound \<noteq> - 1"
    "factory_created ?debug" "pc_created ?debug True"
    by (simp_all add: demo_bound_def demo_env_def)
  from ConnectToPeer_rejects_second_session [of demo_bound demo_env 9 Map.empty "\<lambda>h. False" 0]
    h(1,2)
  have a: "ConnectToPeer demo_env demo_bound 9 =
     Inr (demo_bound\<lparr>trace := trace demo_bound @
            [MessageBox ''Error'' ''We only support connecting to one peer at a time'' True]\<rparr>)"
    by blast
  note inst = ConnectToPeer_rejects_second_session [of demo_bound ?debug 9 Map.empty "\<lambda>h. False" 0]
  from inst h(3,4) have b: "ConnectToPeer ?debug demo_bound 9 = Inl DcheckFailed" by blast
  from inst h(5,6) obtain st1 where
    "ConnectToPeer ?debug (ConductorWs_new Map.empty (\<lambda>h. False) 0) 7 = Inr st1"
    "peer_id st1 = 7" "peer_connection st1 \<noteq> None"
    "ConnectToPeer ?debug st1 9 =
       (if RTC_DCHECK_IS_ON ?debug then Inl DcheckFailed
        else Inr (st1\<lparr>trace := trace st1 @
                    [MessageBox ''Error''
                       ''We only support connecting to one peer at a time'' True]\<rparr>))"
    by blast
  with h(3) have c: "\<exists>st1. ConnectToPeer ?debug
            (ConductorWs_new Map.empty (\<lambda>h. False) 0) 7 = Inr st1 \<and>
          peer_id st1 = 7 \<and> peer_connection st1 \<noteq> None \<and>
          ConnectToPeer ?debug st1 9 = Inl DcheckFailed"
    by auto
  from h a b c show ?thesis by simp
qed

text \<open>
  C2 as stated fails: in a build with debug checks, \<^verbatim>\<open>ConnectToPeer(9)\<close> on the
  conductor bound to peer 7 ends at the check of line 455; no error box is
  shown.
\<close>

theorem ConnectToPeer_bound_fails_debug_check:
  "peer_connection demo_bound \<noteq> None \<and> peer_id demo_bound = 7 \<and>
   RTC_DCHECK_IS_ON (demo_env\<lparr>RTC_DCHECK_IS_ON := True\<rparr>) \<and>
   ConnectToPeer (demo_env\<lparr>RTC_DCHECK_IS_ON := True\<rparr>) demo_bound 9 = Inl DcheckFailed"
  by (simp add: ConnectToPeer_def demo_bound_def demo_env_def)

subsection \<open>Teardown\<close>

lemma torn_down_DeletePeerConnection:
  "torn_down st (DeletePeerConnection st)"
  by (simp add: torn_down_def connection_active_def)

lemma torn_down_Close: "torn_down st (Close st)"
  by (simp add: torn_down_def connection_active_def Close_def)

lemma torn_down_OnDisconnected: "torn_down st (OnDisconnected e st)"
  by (simp add: torn_down_def connection_active_def OnDisconnected_def Let_def)

lemma torn_down_PEER_CONNECTION_CLOSED:
  "torn_down st (UIThreadCallback e st PEER_CONNECTION_CLOSED)"
  by (simp add: torn_down_def connection_active_def UIThreadCallback_def Let_def
      DisconnectFromServer_def)

lemma torn_down_DisconnectFromCurrentPeer:
  "peer_connection st \<noteq> None \<Longrightarrow> torn_down st (DisconnectFromCurrentPeer e st)"
  by (simp add: torn_down_def connection_active_def DisconnectFromCurrentPeer_def Let_def)

lemma Reinitialize_fails:
  assumes "peer_connection st = Some pc" "peer_connection_factory st" "\<not> pc_created e False"
  shows "ReinitializePeerConnectionForLoopback e st =
           Inr (False, st\<lparr>loopback := True, peer_connection := None,
                          trace := trace st @
                            [FactoryCreatePeerConnection False (GetPeerConnectionString e)]\<rparr>)"
  using assms
  by (simp add: ReinitializePeerConnectionForLoopback_def CreatePeerConnection_def Let_def emit_def)

lemma torn_down_loopback_failure:
  assumes "json_parse e message = Some j" "decode e j = Inr LoopbackOffer"
    "peer_connection st \<noteq> None" "peer_connection_factory st" "\<not> pc_created e False"
  shows "\<exists>st'. apply_message e st message = Inr st' \<and> torn_down st st' \<and>
               SignOut \<in> set (new_calls st st')"
proof -
  from assms(3) obtain pc where pc: "peer_connection st = Some pc" by blast
  note r = Reinitialize_fails [OF pc assms(4,5)]
  show ?thesis
    using assms(1,2) r
    by (simp add: apply_message_def torn_down_def connection_active_def)
qed

text \<open>
  C9. Every teardown path goes through \<^verbatim>\<open>DeletePeerConnection\<close>, which stops
  both renderers, releases the peer connection and the factory, resets the
  peer to \<open>-1\<close> and clears the loopback flag: after \<^verbatim>\<open>Close\<close>, after
  \<^verbatim>\<open>OnDisconnected\<close>, after the \<^verbatim>\<open>PEER_CONNECTION_CLOSED\<close> callback, after
  \<^verbatim>\<open>DisconnectFromCurrentPeer\<close> on a bound session, and after a loopback offer
  whose new peer connection cannot be created, the session is torn down.
\<close>

theorem teardown_paths:
  "torn_down st (DeletePeerConnection st) \<and>
   torn_down st (Close st) \<and>
   torn_down st (OnDisconnected e st) \<and>
   torn_down st (UIThreadCallback e st PEER_CONNECTION_CLOSED) \<and>
   (peer_connection st \<noteq> None \<longrightarrow> torn_down st (DisconnectFromCurrentPeer e st)) \<and>
   (json_parse e message = Some j \<and> decode e j = Inr LoopbackOffer \<and>
    peer_connection st \<noteq> None \<and> peer_connection_factory st \<and> \<not> pc_created e False \<longrightarrow>
      (\<exists>st'. apply_message e st message = Inr st' \<and> torn_down st st'))"
  using torn_down_DeletePeerConnection [of st] torn_down_Close [of st]
    torn_down_OnDisconnected [of st e] torn_down_PEER_CONNECTION_CLOSED [of st e]
    torn_down_DisconnectFromCurrentPeer [of st e]
    torn_down_loopback_failure [of e message j st]
  by blast

text \<open>
  The witness of C9: the bound conductor disconnects from its peer, and it
  receives a loopback offer while no peer connection without DTLS can be
  created.
\<close>

theorem teardown_paths_witness:
  "peer_connection demo_bound \<noteq> None \<and>
   torn_down demo_bound (DisconnectFromCurrentPeer demo_env demo_bound) \<and>
   json_parse (demo_env\<lparr>pc_created := (\<lambda>d. d)\<rparr>) ''loopback'' =
     Some (JObject [(''type'', JString ''offer-loopback''), (''janus'', JString ''ack'')]) \<and>
   decode (demo_env\<lparr>pc_created := (\<lambda>d. d)\<rparr>)
     (JObject [(''type'', JString ''offer-loopback''), (''janus'', JString ''ack'')]) =
     Inr LoopbackOffer \<and>
   peer_connection_factory demo_bound \<and>
   \<not> pc_created (demo_env\<lparr>pc_created := (\<lambda>d. d)\<rparr>) False \<and>
   (\<exists>st'. apply_message (demo_env\<lparr>pc_created := (\<lambda>d. d)\<rparr>) demo_bound ''loopback'' = Inr st' \<and>
          torn_down demo_bound st')"
  using teardown_paths [of demo_bound demo_env "''loopback''"
          "JObject [(''type'', JString ''offer-loopback''), (''janus'', JString ''ack'')]"]
        teardown_paths [of demo_bound "demo_env\<lparr>pc_created := (\<lambda>d. d)\<rparr>" "''loopback''"
          "JObject [(''type'', JString ''offer-loopback''), (''janus'', JString ''ack'')]"]
        demo_parse_loopback decode_loopback
  by (simp add: demo_bound_def)

subsection \<open>Loopback\<close>

lemma OnSuccess_loopback:
  "loopback st \<Longrightarrow> peer_connection st \<noteq> None \<Longrightarrow>
   OnSuccess e st desc =
     Inr (st\<lparr>trace := trace st @
              [SetLocalDescription desc,
               SetRemoteDescription (CreateSessionDescription e kAnswer (sd_sdp desc))]\<rparr>)"
  by (auto simp add: OnSuccess_def emit_def Let_def)

lemma pc_AddTrack_keeps:
  "pc_AddTrack e t ids st = Inr (ok, st') \<Longrightarrow>
   loopback st' = loopback st \<and> peer_connection st' \<noteq> None"
  by (auto simp add: pc_AddTrack_def Let_def split: option.splits if_splits)

lemma add_senders_keeps:
  "add_senders e ss st = Inr st' \<Longrightarrow> peer_connection st \<noteq> None \<Longrightarrow>
   loopback st' = loopback st \<and> peer_connection st' \<noteq> None"
proof (induction ss arbitrary: st)
  case Nil
  then show ?case by simp
next
  case (Cons s ss)
  obtain t ids where s: "s = (t, ids)" by (cases s)
  from Cons.prems(1) s obtain ok st1 where
    a: "pc_AddTrack e t ids st = Inr (ok, st1)" and r: "add_senders e ss st1 = Inr st'"
    by (auto split: sum.splits)
  from pc_AddTrack_keeps [OF a] Cons.IH [OF r] show ?case by simp
qed

lemma Reinitialize_enters_loopback:
  assumes "ReinitializePeerConnectionForLoopback e st = Inr (True, st')"
  shows "loopback st' \<and> peer_connection st' \<noteq> None"
proof -
  from assms obtain pc where pc: "peer_connection st = Some pc"
    by (cases "peer_connection st") (simp_all add: ReinitializePeerConnectionForLoopback_def)
  let ?st2 = "st\<lparr>loopback := True, peer_connection := None\<rparr>"
  from assms pc obtain ok st3 where c: "CreatePeerConnection e ?st2 False = Inr (ok, st3)"
    by (cases "CreatePeerConnection e ?st2 False")
       (auto simp add: ReinitializePeerConnectionForLoopback_def Let_def)
  from c have l3: "loopback st3" and p3: "ok = (peer_connection st3 \<noteq> None)"
    by (auto simp add: CreatePeerConnection_def Let_def split: if_splits)
  show ?thesis
  proof (cases ok)
    case False
    with assms pc c p3 show ?thesis
      by (simp add: ReinitializePeerConnectionForLoopback_def Let_def)
  next
    case True
    with assms pc c obtain st4 where a: "add_senders e (senders pc) st3 = Inr st4"
      and r: "st' = emit CreateOffer st4"
      by (auto simp add: ReinitializePeerConnectionForLoopback_def Let_def split: sum.splits)
    from True p3 have "peer_connection st3 \<noteq> None" by simp
    from add_senders_keeps [OF a this] l3 r show ?thesis by simp
  qed
qed

text \<open>
  C4. In loopback mode, when the engine hands over its local description,
  \<^verbatim>\<open>OnSuccess\<close> sets it as the local description and applies to the same peer
  connection a remote description of type answer with the same SDP text; it
  queues nothing for the UI thread and calls nothing on the transport. A
  successful \<^verbatim>\<open>ReinitializePeerConnectionForLoopback\<close> is what enters that mode.
\<close>

theorem loopback_answer_applied_locally:
  "(loopback st \<and> peer_connection st \<noteq> None \<and> sdp_valid e (sd_sdp offer) \<longrightarrow>
      OnSuccess e st offer =
        Inr (st\<lparr>trace := trace st @
                 [SetLocalDescription offer,
                  SetRemoteDescription (Some \<lparr>sd_type = kAnswer, sd_sdp = sd_sdp offer\<rparr>)]\<rparr>)) \<and>
   (loopback st \<and> peer_connection st \<noteq> None \<longrightarrow>
      (\<exists>st'. OnSuccess e st offer = Inr st' \<and>
             peer_connection st' = peer_connection st \<and>
             pending_messages st' = pending_messages st \<and>
             filter is_ui_callback (new_calls st st') = [] \<and>
             filter is_transport_call (new_calls st st') = [])) \<and>
   (ReinitializePeerConnectionForLoopback e st0 = Inr (True, st) \<longrightarrow>
      loopback st \<and> peer_connection st \<noteq> None)"
  using OnSuccess_loopback [of st e offer] Reinitialize_enters_loopback [of e st0 st]
  by (auto simp add: CreateSessionDescription_def)

text \<open>
  The witness of C4: the bound conductor, in loopback mode, is handed an offer.
\<close>

theorem loopback_answer_applied_locally_witness:
  "loopback (demo_bound\<lparr>loopback := True\<rparr>) \<and>
   peer_connection (demo_bound\<lparr>loopback := True\<rparr>) \<noteq> None \<and>
   sdp_valid demo_env (sd_sdp \<lparr>sd_type = kOffer, sd_sdp = ''v=0''\<rparr>) \<and>
   OnSuccess demo_env (demo_bound\<lparr>loopback := True\<rparr>) \<lparr>sd_type = kOffer, sd_sdp = ''v=0''\<rparr> =
     Inr (demo_bound\<lparr>loopback := True,
            trace := [SetLocalDescription \<lparr>sd_type = kOffer, sd_sdp = ''v=0''\<rparr>,
                      SetRemoteDescription (Some \<lparr>sd_type = kAnswer, sd_sdp = ''v=0''\<rparr>)]\<rparr>) \<and>
   ReinitializePeerConnectionForLoopback demo_env demo_bound =
     Inr (True, demo_bound\<lparr>loopback := True,
                  peer_connection := Some \<lparr>enable_dtls_srtp = False, senders = []\<rparr>,
                  trace := [FactoryCreatePeerConnection False ''stun:stun.l.google.com:19302'',
                            CreateOffer]\<rparr>) \<and>
   loopback (demo_bound\<lparr>loopback := True,
                  peer_connection := Some \<lparr>enable_dtls_srtp = False, senders = []\<rparr>,
                  trace := [FactoryCreatePeerConnection False ''stun:stun.l.google.com:19302'',
                            CreateOffer]\<rparr>)"
proof -
  let ?st = "demo_bound\<lparr>loopback := True\<rparr>"
  let ?offer = "\<lparr>sd_type = kOffer, sd_sdp = ''v=0''\<rparr>"
  let ?st1 = "demo_bound\<lparr>loopback := True,
                  peer_connection := Some \<lparr>enable_dtls_srtp = False, senders = []\<rparr>,
                  trace := [FactoryCreatePeerConnection False ''stun:stun.l.google.com:19302'',
                            CreateOffer]\<rparr>"
  have h: "loopback ?st" "peer_connection ?st \<noteq> None" "sdp_valid demo_env (sd_sdp ?offer)"
    by (simp_all add: demo_bound_def demo_env_def)
  have r: "ReinitializePeerConnectionForLoopback demo_env demo_bound = Inr (True, ?st1)"
    by (simp add: demo_bound_def demo_env_def ReinitializePeerConnectionForLoopback_def
        CreatePeerConnection_def Let_def emit_def)
  have t: "trace ?st = []" by (simp add: demo_bound_def)
  from loopback_answer_applied_locally [of ?st demo_env ?offer demo_bound] h
  have "OnSuccess demo_env ?st ?offer =
        Inr (?st\<lparr>trace := trace ?st @
                 [SetLocalDescription ?offer,
                  SetRemoteDescription (Some \<lparr>sd_type = kAnswer, sd_sdp = sd_sdp ?offer\<rparr>)]\<rparr>)"
    by blast
  moreover from loopback_answer_applied_locally [of ?st1 demo_env ?offer demo_bound] r
  have "loopback ?st1" by blast
  ultimately show ?thesis using h r t by simp
qed

subsection \<open>The wire format\<close>

lemma description_json_layout:
  "description_json m =
     JObject [(''type'', JString (SdpTypeToString (sd_type m))), (''sdp'', JString (sd_sdp m))]"
  by (simp add: description_json_def kSessionDescriptionTypeName_def kSessionDescriptionSdpName_def)

lemma candidate_json_layout:
  "candidate_json mid idx sdp =
     JObject [(''sdpMid'', JString mid), (''sdpMLineIndex'', JInt idx), (''candidate'', JString sdp)]"
  by (simp add: candidate_json_def kCandidateSdpMidName_def kCandidateSdpMlineIndexName_def
      kCandidateSdpName_def)

lemma SdpType_roundtrip: "SdpTypeFromString (SdpTypeToString t) = Some t"
  by (cases t) (simp_all add: SdpTypeFromString_def)

lemma SdpTypeToString_not_special:
  "SdpTypeToString t \<noteq> []" "SdpTypeToString t \<noteq> ''offer-loopback''"
  by (cases t; simp)+

lemma decode_description_json:
  "sdp_valid e (sd_sdp m) \<Longrightarrow> decode e (description_json m) = Inr (Description m)"
  by (simp add: description_json_layout decode_def GetStringFromJsonObject_def
      GetValueFromJsonObject_def GetStringFromJson_def kSessionDescriptionTypeName_def
      kSessionDescriptionSdpName_def SdpType_roundtrip SdpTypeToString_not_special
      CreateSessionDescription_def)

lemma decode_candidate_json:
  "candidate_valid e mid idx sdp \<Longrightarrow> INT_MIN \<le> idx \<Longrightarrow> idx \<le> INT_MAX \<Longrightarrow>
   decode e (candidate_json mid idx sdp) =
     Inr (Candidate \<lparr>sdp_mid = mid, sdp_mline_index = idx, cand_sdp = Some sdp\<rparr>)"
  by (simp add: candidate_json_layout decode_def GetStringFromJsonObject_def
      GetIntFromJsonObject_def GetIntFromJson_def
      GetValueFromJsonObject_def GetStringFromJson_def kSessionDescriptionTypeName_def
      kCandidateSdpMidName_def kCandidateSdpMlineIndexName_def
      kCandidateSdpName_def CreateIceCandidate_def)

text \<open>
  What the conductor sends: \<^verbatim>\<open>OnSuccess\<close> queues the text of the object with
  the members \<^verbatim>\<open>type\<close> and \<^verbatim>\<open>sdp\<close>, \<^verbatim>\<open>OnIceCandidate\<close> the text of the
  object with the members \<^verbatim>\<open>sdpMid\<close>, \<^verbatim>\<open>sdpMLineIndex\<close> and \<^verbatim>\<open>candidate\<close>.
\<close>

lemma OnSuccess_sends_description:
  assumes "\<not> loopback st" "peer_connection st \<noteq> None"
  shows "OnSuccess e st m =
     Inr (st\<lparr>trace := trace st @
              [SetLocalDescription m,
               QueueUIThreadCallback
                 (SEND_MESSAGE_TO_PEER
                    (Some (json_write e
                       (JObject [(''type'', JString (SdpTypeToString (sd_type m))),
                                 (''sdp'', JString (sd_sdp m))]))))]\<rparr>)"
  using assms
  by (auto simp add: OnSuccess_def SendMessage_def emit_def Let_def description_json_layout)

lemma OnIceCandidate_sends_candidate:
  assumes "\<not> loopback st" "cand_sdp c = Some sdp"
  shows "OnIceCandidate e st c =
     Inr (st\<lparr>trace := trace st @
              [Log INFO (''OnIceCandidate '' @ dec_int (sdp_mline_index c)),
               QueueUIThreadCallback
                 (SEND_MESSAGE_TO_PEER
                    (Some (json_write e
                       (JObject [(''sdpMid'', JString (sdp_mid c)),
                                 (''sdpMLineIndex'', JInt (sdp_mline_index c)),
                                 (''candidate'', JString sdp)]))))]\<rparr>)"
  using assms
  by (simp add: OnIceCandidate_def SendMessage_def RTC_LOG_def emit_def Let_def
      candidate_json_layout)

text \<open>
  What the conductor does with such a text when it receives it: the object has
  no member \<^verbatim>\<open>janus\<close> and no member \<^verbatim>\<open>sender\<close>, so the gateway block takes
  its last branch (line 306) and \<^verbatim>\<open>new BigInteger\<close> is given the empty
  string.
\<close>

lemma description_object_raises:
  assumes "json_parse e text =
     Some (JObject [(''type'', JString (SdpTypeToString t)), (''sdp'', JString sdp)])"
  shows "OnMessageFromPeer e st p text = Inl NumberFormatException"
  using assms
  by (cases t)
     (simp_all add: OnMessageFromPeer_def type_tag_block_def janus_tag_block_def
      sender_block_def optString_def GetStringFromJsonObject_def GetValueFromJsonObject_def
      GetStringFromJson_def kSessionDescriptionTypeName_def parse_decimal_def Let_def)

lemma candidate_object_raises:
  assumes "json_parse e text =
     Some (JObject [(''sdpMid'', JString mid), (''sdpMLineIndex'', JInt idx),
                    (''candidate'', JString sdp)])"
  shows "OnMessageFromPeer e st p text = Inl NumberFormatException"
  using assms
  by (simp add: OnMessageFromPeer_def type_tag_block_def janus_tag_block_def
      sender_block_def optString_def GetStringFromJsonObject_def GetValueFromJsonObject_def
      GetStringFromJson_def kSessionDescriptionTypeName_def parse_decimal_def Let_def)

text \<open>
  C5. The round trip fails in \<^verbatim>\<open>OnMessageFromPeer\<close>. \<^verbatim>\<open>OnSuccess\<close> sends the
  text of the object \<^verbatim>\<open>{type, sdp}\<close> and \<^verbatim>\<open>OnIceCandidate\<close> the text of the
  object \<^verbatim>\<open>{sdpMid, sdpMLineIndex, candidate}\<close>, as the claim says. When the
  reader gives that object back for the text, \<^verbatim>\<open>OnMessageFromPeer\<close> raises
  \<^verbatim>\<open>NumberFormatException\<close> in its gateway block, for every description,
  every candidate, every state of the receiving conductor and every peer: the
  decoder of lines 354 to 399 is not reached and nothing is reconstructed. The
  decoder alone would give the message back (lemmas
  \<open>decode_description_json\<close> and \<open>decode_candidate_json\<close>).
\<close>

theorem encoded_message_raises_before_decode:
  "(\<not> loopback st \<and> peer_connection st \<noteq> None \<longrightarrow>
      OnSuccess e st m =
        Inr (st\<lparr>trace := trace st @
                 [SetLocalDescription m,
                  QueueUIThreadCallback
                    (SEND_MESSAGE_TO_PEER
                       (Some (json_write e
                          (JObject [(''type'', JString (SdpTypeToString (sd_type m))),
                                    (''sdp'', JString (sd_sdp m))]))))]\<rparr>)) \<and>
   (json_parse e'
      (json_write e (JObject [(''type'', JString (SdpTypeToString (sd_type m))),
                              (''sdp'', JString (sd_sdp m))])) =
      Some (JObject [(''type'', JString (SdpTypeToString (sd_type m))),
                     (''sdp'', JString (sd_sdp m))]) \<longrightarrow>
      OnMessageFromPeer e' st' p
        (json_write e (JObject [(''type'', JString (SdpTypeToString (sd_type m))),
                                (''sdp'', JString (sd_sdp m))])) =
        Inl NumberFormatException) \<and>
   (\<not> loopback st \<and> cand_sdp c = Some sdp \<longrightarrow>
      OnIceCandidate e st c =
        Inr (st\<lparr>trace := trace st @
                 [Log INFO (''OnIceCandidate '' @ dec_int (sdp_mline_index c)),
                  QueueUIThreadCallback
                    (SEND_MESSAGE_TO_PEER
                       (Some (json_write e
                          (JObject [(''sdpMid'', JString (sdp_mid c)),
                                    (''sdpMLineIndex'', JInt (sdp_mline_index c)),
                                    (''candidate'', JString sdp)]))))]\<rparr>)) \<and>
   (json_parse e'
      (json_write e (JObject [(''sdpMid'', JString (sdp_mid c)),
                              (''sdpMLineIndex'', JInt (sdp_mline_index c)),
                              (''candidate'', JString sdp)])) =
      Some (JObject [(''sdpMid'', JString (sdp_mid c)),
                     (''sdpMLineIndex'', JInt (sdp_mline_index c)),
                     (''candidate'', JString sdp)]) \<longrightarrow>
      OnMessageFromPeer e' st' p
        (json_write e (JObject [(''sdpMid'', JString (sdp_mid c)),
                                (''sdpMLineIndex'', JInt (sdp_mline_index c)),
                                (''candidate'', JString sdp)])) =
        Inl NumberFormatException)"
  using OnSuccess_sends_description [of st e m]
    description_object_raises
      [of e' "json_write e (JObject [(''type'', JString (SdpTypeToString (sd_type m))),
                                     (''sdp'', JString (sd_sdp m))])" "sd_type m" "sd_sdp m" st' p]
    OnIceCandidate_sends_candidate [of st c sdp e]
    candidate_object_raises
      [of e' "json_write e (JObject [(''sdpMid'', JString (sdp_mid c)),
                                     (''sdpMLineIndex'', JInt (sdp_mline_index c)),
                                     (''candidate'', JString sdp)])"
          "sdp_mid c" "sdp_mline_index c" sdp st' p]
  by blast

text \<open>
  The witness of C5, and its failing input: the bound conductor sends an offer
  with the SDP text \<^verbatim>\<open>v=0\<close> and a candidate of the stream \<^verbatim>\<open>audio\<close>; a
  conductor bound to the same peer, and a new one, receive what was sent.
\<close>

theorem encoded_message_raises_before_decode_witness:
  "\<not> loopback demo_bound \<and> peer_connection demo_bound \<noteq> None \<and>
   OnSuccess demo_env demo_bound \<lparr>sd_type = kOffer, sd_sdp = ''v=0''\<rparr> =
     Inr (demo_bound\<lparr>trace :=
            [SetLocalDescription \<lparr>sd_type = kOffer, sd_sdp = ''v=0''\<rparr>,
             QueueUIThreadCallback (SEND_MESSAGE_TO_PEER (Some ''offer''))]\<rparr>) \<and>
   json_parse demo_env ''offer'' =
     Some (JObject [(''type'', JString ''offer''), (''sdp'', JString ''v=0'')]) \<and>
   OnMessageFromPeer demo_env demo_bound 7 ''offer'' = Inl NumberFormatException \<and>
   OnMessageFromPeer demo_env demo_new 7 ''offer'' = Inl NumberFormatException \<and>
   cand_sdp \<lparr>sdp_mid = ''audio'', sdp_mline_index = 0, cand_sdp = Some ''a=candidate''\<rparr> =
     Some ''a=candidate'' \<and>
   OnIceCandidate demo_env demo_bound
       \<lparr>sdp_mid = ''audio'', sdp_mline_index = 0, cand_sdp = Some ''a=candidate''\<rparr> =
     Inr (demo_bound\<lparr>trace :=
            [Log INFO ''OnIceCandidate 0'',
             QueueUIThreadCallback (SEND_MESSAGE_TO_PEER (Some ''candidate''))]\<rparr>) \<and>
   json_parse demo_env ''candidate'' =
     Some (JObject [(''sdpMid'', JString ''audio''), (''sdpMLineIndex'', JInt 0),
                    (''candidate'', JString ''a=candidate'')]) \<and>
   OnMessageFromPeer demo_env demo_bound 7 ''candidate'' = Inl NumberFormatException"
proof -
  let ?m = "\<lparr>sd_type = kOffer, sd_sdp = ''v=0''\<rparr>"
  let ?c = "\<lparr>sdp_mid = ''audio'', sdp_mline_index = 0, cand_sdp = Some ''a=candidate''\<rparr>"
  let ?jm = "JObject [(''type'', JString ''offer''), (''sdp'', JString ''v=0'')]"
  let ?jc = "JObject [(''sdpMid'', JString ''audio''), (''sdpMLineIndex'', JInt 0),
                      (''candidate'', JString ''a=candidate'')]"
  have w: "json_write demo_env ?jm = ''offer''" "json_write demo_env ?jc = ''candidate''"
    by (simp_all add: demo_env_def demo_write_def demo_messages_def)
  have r: "json_parse demo_env ''offer'' = Some ?jm" "json_parse demo_env ''candidate'' = Some ?jc"
    by (simp_all add: demo_env_def demo_messages_def)
  have h: "\<not> loopback demo_bound" "peer_connection demo_bound \<noteq> None"
    "cand_sdp ?c = Some ''a=candidate''" "trace demo_bound = []"
    by (simp_all add: demo_bound_def)
  have d: "dec_int 0 = ''0''" by code_simp
  note bound = encoded_message_raises_before_decode
      [where e = demo_env and e' = demo_env and st = demo_bound and st' = demo_bound
         and m = ?m and c = ?c and sdp = "''a=candidate''" and p = 7]
  note new = encoded_message_raises_before_decode
      [where e = demo_env and e' = demo_env and st = demo_bound and st' = demo_new
         and m = ?m and c = ?c and sdp = "''a=candidate''" and p = 7]
  from bound h(1,2) have "OnSuccess demo_env demo_bound ?m =
        Inr (demo_bound\<lparr>trace := trace demo_bound @
                 [SetLocalDescription ?m,
                  QueueUIThreadCallback
                    (SEND_MESSAGE_TO_PEER
                       (Some (json_write demo_env
                          (JObject [(''type'', JString (SdpTypeToString (sd_type ?m))),
                                    (''sdp'', JString (sd_sdp ?m))]))))]\<rparr>)"
    by blast
  then have a: "OnSuccess demo_env demo_bound ?m =
     Inr (demo_bound\<lparr>trace :=
            [SetLocalDescription ?m,
             QueueUIThreadCallback (SEND_MESSAGE_TO_PEER (Some ''offer''))]\<rparr>)"
    using w(1) h(4) by simp
  have pm: "json_parse demo_env
      (json_write demo_env (JObject [(''type'', JString (SdpTypeToString (sd_type ?m))),
                              (''sdp'', JString (sd_sdp ?m))])) =
      Some (JObject [(''type'', JString (SdpTypeToString (sd_type ?m))),
                     (''sdp'', JString (sd_sdp ?m))])"
    using w(1) r(1) by simp
  from bound pm have "OnMessageFromPeer demo_env demo_bound 7
        (json_write demo_env (JObject [(''type'', JString (SdpTypeToString (sd_type ?m))),
                                (''sdp'', JString (sd_sdp ?m))])) =
        Inl NumberFormatException"
    by blast
  then have b: "OnMessageFromPeer demo_env demo_bound 7 ''offer'' = Inl NumberFormatException"
    using w(1) by simp
  from new pm have "OnMessageFromPeer demo_env demo_new 7
        (json_write demo_env (JObject [(''type'', JString (SdpTypeToString (sd_type ?m))),
                                (''sdp'', JString (sd_sdp ?m))])) =
        Inl NumberFormatException"
    by blast
  then have b': "OnMessageFromPeer demo_env demo_new 7 ''offer'' = Inl NumberFormatException"
    using w(1) by simp
  from bound h(1,3) have "OnIceCandidate demo_env demo_bound ?c =
        Inr (demo_bound\<lparr>trace := trace demo_bound @
                 [Log INFO (''OnIceCandidate '' @ dec_int (sdp_mline_index ?c)),
                  QueueUIThreadCallback
                    (SEND_MESSAGE_TO_PEER
                       (Some (json_write demo_env
                          (JObject [(''sdpMid'', JString (sdp_mid ?c)),
                                    (''sdpMLineIndex'', JInt (sdp_mline_index ?c)),
                                    (''candidate'', JString ''a=candidate'')]))))]\<rparr>)"
    by blast
  then have c: "OnIceCandidate demo_env demo_bound ?c =
     Inr (demo_bound\<lparr>trace :=
            [Log INFO ''OnIceCandidate 0'',
             QueueUIThreadCallback (SEND_MESSAGE_TO_PEER (Some ''candidate''))]\<rparr>)"
    using w(2) h(4) d by simp
  have pc: "json_parse demo_env
      (json_write demo_env (JObject [(''sdpMid'', JString (sdp_mid ?c)),
                              (''sdpMLineIndex'', JInt (sdp_mline_index ?c)),
                              (''candidate'', JString ''a=candidate'')])) =
      Some (JObject [(''sdpMid'', JString (sdp_mid ?c)),
                     (''sdpMLineIndex'', JInt (sdp_mline_index ?c)),
                     (''candidate'', JString ''a=candidate'')])"
    using w(2) r(2) by simp
  from bound pc have "OnMessageFromPeer demo_env demo_bound 7
        (json_write demo_env (JObject [(''sdpMid'', JString (sdp_mid ?c)),
                                (''sdpMLineIndex'', JInt (sdp_mline_index ?c)),
                                (''candidate'', JString ''a=candidate'')])) =
        Inl NumberFormatException"
    by blast
  then have e: "OnMessageFromPeer demo_env demo_bound 7 ''candidate'' = Inl NumberFormatException"
    using w(2) by simp
  from h(1,2,3) r a b b' c e show ?thesis by simp
qed

subsection \<open>The gateway blocks and the peer check\<close>

lemma resolve_success_frame:
  assumes "resolve_success e st jo = Inr st'"
  shows "session_untouched st st' \<and> only_removed st st'"
proof (cases "transactions st (optString e jo ''transaction'')")
  case None
  with assms show ?thesis by (simp add: resolve_success_def)
next
  case (Some jt)
  show ?thesis
  proof (cases "success jt")
    case None
    with Some assms
    have "st' = st\<lparr>transactions := (transactions st)(optString e jo ''transaction'' := None)\<rparr>"
      by (simp add: resolve_success_def)
    then show ?thesis
      using session_untouched_transactions [OF session_untouched_refl]
        only_removed_delete [of st st]
      by simp
  next
    case (Some cb)
    with \<open>transactions st (optString e jo ''transaction'') = Some jt\<close> assms
    have "st' = (emit (InvokeSuccess cb jo) st)
             \<lparr>transactions := (transactions (emit (InvokeSuccess cb jo) st))
                                (optString e jo ''transaction'' := None)\<rparr>"
      by (simp add: resolve_success_def)
    then show ?thesis
      using session_untouched_transactions [OF session_untouched_emit,
              of "InvokeSuccess cb jo" st]
        only_removed_delete [of "emit (InvokeSuccess cb jo) st" st]
      by simp
  qed
qed

lemma resolve_error_frame:
  assumes "resolve_error e st jo = Inr st'"
  shows "session_untouched st st' \<and> only_removed st st'"
proof (cases "transactions st (optString e jo ''transaction'')")
  case None
  with assms show ?thesis by (simp add: resolve_error_def)
next
  case (Some jt)
  show ?thesis
  proof (cases "error jt")
    case None
    with Some assms
    have "st' = st\<lparr>transactions := (transactions st)(optString e jo ''transaction'' := None)\<rparr>"
      by (simp add: resolve_error_def)
    then show ?thesis
      using session_untouched_transactions [OF session_untouched_refl]
        only_removed_delete [of st st]
      by simp
  next
    case (Some cb)
    with \<open>transactions st (optString e jo ''transaction'') = Some jt\<close> assms
    have "st' = (emit (InvokeError cb jo) st)
             \<lparr>transactions := (transactions (emit (InvokeError cb jo) st))
                                (optString e jo ''transaction'' := None)\<rparr>"
      by (simp add: resolve_error_def)
    then show ?thesis
      using session_untouched_transactions [OF session_untouched_emit,
              of "InvokeError cb jo" st]
        only_removed_delete [of "emit (InvokeError cb jo) st" st]
      by simp
  qed
qed

lemma type_tag_block_frame:
  assumes "type_tag_block e st j = Inr st'"
  shows "session_untouched st st' \<and> only_removed st st'"
proof -
  define tag where "tag = (case GetStringFromJsonObject j kSessionDescriptionTypeName of
                         None \<Rightarrow> [] | Some s \<Rightarrow> s)"
  consider "tag = ''ack''" | "tag = ''success''" | "tag \<noteq> ''ack''" "tag \<noteq> ''success''"
    by blast
  then show ?thesis
  proof cases
    case 1
    with assms have "st' = RTC_LOG INFO ''Got an ack on session. '' st"
      by (simp add: type_tag_block_def tag_def)
    then show ?thesis by simp
  next
    case 2
    with assms have "resolve_success e st j = Inr st'"
      by (simp add: type_tag_block_def tag_def)
    then show ?thesis by (rule resolve_success_frame)
  next
    case 3
    with assms have "st' = st"
      by (simp add: type_tag_block_def tag_def Let_def split: if_splits)
    then show ?thesis by simp
  qed
qed

lemma session_log_frame [simp]:
  "session_untouched st (session_log s m st)" "only_removed st (session_log s m st)"
  by (simp_all add: session_log_def session_untouched_emit only_removed_same)

lemma sender_block_frame:
  assumes "sender_block e st jo janus = Inr (r, st')"
  shows "session_untouched st st' \<and> only_removed st st'"
proof -
  let ?st1 = "session_log ANDROID_DEBUG ''Got a plugin event on session '' st"
  from assms
  have "st' = st \<or> st' = ?st1 \<or> st' = emit (Log ANDROID_ERROR ''missing handle'') st \<or>
        (\<exists>cb. st' = emit (InvokeEvent cb jo) ?st1)"
    unfolding sender_block_def Let_def
    by (simp split: option.splits if_splits) blast+
  then show ?thesis
    using session_untouched_trans [OF session_log_frame(1) session_untouched_emit]
      only_removed_trans [OF session_log_frame(2) only_removed_emit]
    by (auto simp add: session_untouched_emit)
qed

lemma janus_tag_block_frame:
  assumes "janus_tag_block e st j = Inr (r, st')"
  shows "session_untouched st st' \<and> only_removed st st'"
proof (cases j)
  case (JObject ms)
  from assms show ?thesis
    unfolding janus_tag_block_def JObject Let_def json.case
    by (auto split: if_splits sum.splits
        dest: resolve_success_frame resolve_error_frame sender_block_frame)
qed (use assms in \<open>auto simp add: janus_tag_block_def session_untouched_emit\<close>)

lemma bind_peer_guard:
  "peer_connection st \<noteq> None \<Longrightarrow> p \<noteq> peer_id st \<Longrightarrow>
   bind_peer e st p =
     Inr (True,
          RTC_LOG WARNING
            (''Received a message from unknown peer while already in a '' @
             ''conversation with a different peer.'') st)"
  by (auto simp add: bind_peer_def)

lemma bind_peer_same:
  "peer_connection st \<noteq> None \<Longrightarrow> bind_peer e st (peer_id st) = Inr (False, st)"
  by (auto simp add: bind_peer_def)

lemma OnMessageFromPeer_unparsed:
  "json_parse e message = None \<Longrightarrow>
   OnMessageFromPeer e st p message =
     Inr (st\<lparr>trace := trace st @
              [Log INFO (''Got wsmsg:'' @ message),
               Log WARNING (''Received unknown message. '' @ message)]\<rparr>)"
  by (simp add: OnMessageFromPeer_def Let_def RTC_LOG_def emit_def)

lemma OnMessageFromPeer_stages:
  assumes parse: "json_parse e message = Some j"
    and ret: "OnMessageFromPeer e st p message = Inr st'"
  shows "\<exists>st1 r st2.
    type_tag_block e (RTC_LOG INFO (''Got wsmsg:'' @ message) st) j = Inr st1 \<and>
    janus_tag_block e st1 j = Inr (r, st2) \<and>
    (if r then st' = st2
     else \<exists>r2 st3. bind_peer e st2 p = Inr (r2, st3) \<and>
            (if r2 then st' = st3 else apply_message e st3 message = Inr st'))"
proof (cases "type_tag_block e (RTC_LOG INFO (''Got wsmsg:'' @ message) st) j")
  case (Inl f)
  with parse ret show ?thesis by (auto simp add: OnMessageFromPeer_def Let_def)
next
  case t: (Inr st1)
  show ?thesis
  proof (cases "janus_tag_block e st1 j")
    case (Inl f)
    with parse ret t show ?thesis by (auto simp add: OnMessageFromPeer_def Let_def)
  next
    case (Inr rs)
    obtain r st2 where rs: "rs = (r, st2)" by (cases rs)
    show ?thesis
    proof (cases r)
      case True
      with parse ret t Inr rs show ?thesis by (auto simp add: OnMessageFromPeer_def Let_def)
    next
      case False
      show ?thesis
      proof (cases "bind_peer e st2 p")
        case (Inl f)
        with parse ret t Inr rs False show ?thesis
          by (auto simp add: OnMessageFromPeer_def Let_def)
      next
        case b: (Inr rs3)
        obtain r2 st3 where rs3: "rs3 = (r2, st3)" by (cases rs3)
        with parse ret t Inr rs False b show ?thesis
          by (cases r2) (auto simp add: OnMessageFromPeer_def Let_def)
      qed
    qed
  qed
qed

lemma gateway_blocks_frame:
  assumes "type_tag_block e (RTC_LOG INFO m st) j = Inr st1"
    "janus_tag_block e st1 j = Inr (r, st2)"
  shows "session_untouched st st2 \<and> only_removed st st2"
proof -
  let ?st0 = "RTC_LOG INFO m st"
  have a: "session_untouched st ?st0" "only_removed st ?st0" by simp_all
  from type_tag_block_frame [OF assms(1)]
  have b: "session_untouched ?st0 st1" "only_removed ?st0 st1" by simp_all
  from janus_tag_block_frame [OF assms(2)]
  have c: "session_untouched st1 st2" "only_removed st1 st2" by simp_all
  from a b c show ?thesis
    using session_untouched_trans only_removed_trans by blast
qed

lemma wrong_peer_frame:
  assumes bound: "peer_connection st \<noteq> None" and wrong: "p \<noteq> peer_id st"
    and ret: "OnMessageFromPeer e st p message = Inr st'"
  shows "session_untouched st st' \<and> only_removed st st'"
proof (cases "json_parse e message")
  case None
  from OnMessageFromPeer_unparsed [OF None, of st p] ret
  have "st' = RTC_LOG WARNING (''Received unknown message. '' @ message)
                (RTC_LOG INFO (''Got wsmsg:'' @ message) st)"
    by (simp add: RTC_LOG_def emit_def)
  then show ?thesis
    using session_untouched_trans [OF session_untouched_RTC_LOG session_untouched_RTC_LOG]
      only_removed_trans [OF only_removed_RTC_LOG only_removed_RTC_LOG]
    by simp
next
  case (Some j)
  from OnMessageFromPeer_stages [OF Some ret] obtain st1 r st2 where
    s: "type_tag_block e (RTC_LOG INFO (''Got wsmsg:'' @ message) st) j = Inr st1"
       "janus_tag_block e st1 j = Inr (r, st2)"
       "r \<Longrightarrow> st' = st2"
       "\<not> r \<Longrightarrow> \<exists>r2 st3. bind_peer e st2 p = Inr (r2, st3) \<and>
          (if r2 then st' = st3 else apply_message e st3 message = Inr st')"
    by (metis (full_types))
  from gateway_blocks_frame [OF s(1,2)]
  have f: "session_untouched st st2" "only_removed st st2" by simp_all
  show ?thesis
  proof (cases r)
    case True
    with s(3) f show ?thesis by simp
  next
    case False
    from f(1) bound wrong have "peer_connection st2 \<noteq> None" "p \<noteq> peer_id st2"
      by (simp_all add: session_untouched_def)
    from bind_peer_guard [OF this, of e] s(4) [OF False]
    have "st' = RTC_LOG WARNING
            (''Received a message from unknown peer while already in a '' @
             ''conversation with a different peer.'') st2"
      by auto
    with f show ?thesis
      using session_untouched_trans [OF f(1) session_untouched_RTC_LOG]
        only_removed_trans [OF f(2) only_removed_RTC_LOG]
      by simp
  qed
qed

lemma guard_after_blocks:
  assumes bound: "peer_connection st \<noteq> None" and wrong: "p \<noteq> peer_id st"
    and parse: "json_parse e message = Some j"
    and t: "type_tag_block e (RTC_LOG INFO (''Got wsmsg:'' @ message) st) j = Inr st1"
    and g: "janus_tag_block e st1 j = Inr (False, st2)"
  shows "OnMessageFromPeer e st p message =
     Inr (RTC_LOG WARNING
            (''Received a message from unknown peer while already in a '' @
             ''conversation with a different peer.'') st2)"
proof -
  from gateway_blocks_frame [OF t g] have "session_untouched st st2" by simp
  with bound wrong have "peer_connection st2 \<noteq> None" "p \<noteq> peer_id st2"
    by (simp_all add: session_untouched_def)
  from bind_peer_guard [OF this, of e] parse t g show ?thesis
    by (simp add: OnMessageFromPeer_def Let_def)
qed

lemma gateway_notification_passes:
  assumes notype: "map_of ms ''type'' = None"
    and tag: "optString e (JObject ms) ''janus'' \<in>
       set [''ack'', ''trickle'', ''webrtcup'', ''hangup'', ''detached'', ''media'', ''slowlink'']"
  shows "type_tag_block e st0 (JObject ms) = Inr st0 \<and>
         (\<exists>st2. janus_tag_block e st0 (JObject ms) = Inr (False, st2) \<and>
                transactions st2 = transactions st0)"
proof -
  have t: "type_tag_block e st0 (JObject ms) = Inr st0"
    using notype
    by (simp add: type_tag_block_def GetStringFromJsonObject_simps
        kSessionDescriptionTypeName_def)
  have "\<exists>st2. janus_tag_block e st0 (JObject ms) = Inr (False, st2) \<and>
                transactions st2 = transactions st0"
    using tag by (auto simp add: janus_tag_block_def Let_def session_log_def)
  with t show ?thesis by simp
qed

lemma wrong_peer_notification_dropped:
  assumes bound: "peer_connection st \<noteq> None" and wrong: "p \<noteq> peer_id st"
    and parse: "json_parse e message = Some (JObject ms)"
    and notype: "map_of ms ''type'' = None"
    and tag: "optString e (JObject ms) ''janus'' \<in>
       set [''ack'', ''trickle'', ''webrtcup'', ''hangup'', ''detached'', ''media'', ''slowlink'']"
  shows "\<exists>st2. OnMessageFromPeer e st p message =
           Inr (RTC_LOG WARNING
                  (''Received a message from unknown peer while already in a '' @
                   ''conversation with a different peer.'') st2) \<and>
           transactions st2 = transactions st"
proof -
  let ?st0 = "RTC_LOG INFO (''Got wsmsg:'' @ message) st"
  from gateway_notification_passes [OF notype tag, of ?st0] obtain st2 where
    t: "type_tag_block e ?st0 (JObject ms) = Inr ?st0"
    and g: "janus_tag_block e ?st0 (JObject ms) = Inr (False, st2)"
    and x: "transactions st2 = transactions ?st0"
    by blast
  from guard_after_blocks [OF bound wrong parse t g] x show ?thesis
    by (intro exI [of _ st2]) simp
qed

text \<open>
  C1, as amended. For every message of a peer other than the bound one, while
  a peer connection exists: whenever \<^verbatim>\<open>OnMessageFromPeer\<close> returns, the peer
  connection, the factory, the bound peer, the loopback flag, the server and
  the outbound queue are unchanged, and no call has gone to the engine, the
  transport, the renderers or the UI thread; entries of the transaction table
  can only have been removed. When the two gateway blocks complete without
  returning, the message is dropped with the warning of the peer check; that
  is so for every gateway notification that only logs (\<^verbatim>\<open>ack\<close>, \<^verbatim>\<open>trickle\<close>,
  \<^verbatim>\<open>webrtcup\<close>, \<^verbatim>\<open>hangup\<close>, \<^verbatim>\<open>detached\<close>, \<^verbatim>\<open>media\<close>, \<^verbatim>\<open>slowlink\<close>) and has
  no \<^verbatim>\<open>type\<close> member. A message that does not parse is dropped with the
  warning of the reader.
\<close>

theorem wrong_peer_message_dropped:
  "(peer_connection st \<noteq> None \<and> p \<noteq> peer_id st \<and>
    OnMessageFromPeer e st p message = Inr st' \<longrightarrow>
      session_untouched st st' \<and> only_removed st st' \<and>
      filter is_engine_call (new_calls st st') = [] \<and>
      filter is_transport_call (new_calls st st') = [] \<and>
      filter is_ui_callback (new_calls st st') = []) \<and>
   (peer_connection st \<noteq> None \<and> p \<noteq> peer_id st \<and> json_parse e message = Some j \<and>
    type_tag_block e (RTC_LOG INFO (''Got wsmsg:'' @ message) st) j = Inr st1 \<and>
    janus_tag_block e st1 j = Inr (False, st2) \<longrightarrow>
      OnMessageFromPeer e st p message =
        Inr (RTC_LOG WARNING
               (''Received a message from unknown peer while already in a '' @
                ''conversation with a different peer.'') st2)) \<and>
   (peer_connection st \<noteq> None \<and> p \<noteq> peer_id st \<and>
    json_parse e message = Some (JObject ms) \<and> map_of ms ''type'' = None \<and>
    optString e (JObject ms) ''janus'' \<in>
      set [''ack'', ''trickle'', ''webrtcup'', ''hangup'', ''detached'', ''media'', ''slowlink''] \<longrightarrow>
      (\<exists>st3. OnMessageFromPeer e st p message =
               Inr (RTC_LOG WARNING
                      (''Received a message from unknown peer while already in a '' @
                       ''conversation with a different peer.'') st3) \<and>
             transactions st3 = transactions st)) \<and>
   (json_parse e message = None \<longrightarrow>
      OnMessageFromPeer e st p message =
        Inr (st\<lparr>trace := trace st @
                 [Log INFO (''Got wsmsg:'' @ message),
                  Log WARNING (''Received unknown message. '' @ message)]\<rparr>))"
  using wrong_peer_frame [of st p e message st'] session_untouched_quiet [of st st']
    guard_after_blocks [of st p e message j st1 st2]
    wrong_peer_notification_dropped [of st p e message ms]
    OnMessageFromPeer_unparsed [of e message st p]
  by blast

text \<open>
  The witness of C1: the conductor bound to peer 7 receives an \<^verbatim>\<open>ack\<close> of
  peer 9.
\<close>

theorem wrong_peer_message_dropped_witness:
  "peer_connection demo_bound \<noteq> None \<and> 9 \<noteq> peer_id demo_bound \<and>
   OnMessageFromPeer demo_env demo_bound 9 ''ack'' =
     Inr (demo_bound
           \<lparr>trace :=
              [Log INFO ''Got wsmsg:ack'', Log ANDROID_INFO ''Got an ack on session 0'',
               Log WARNING
                 (''Received a message from unknown peer while already in a '' @
                  ''conversation with a different peer.'')]\<rparr>) \<and>
   session_untouched demo_bound
     (demo_bound
           \<lparr>trace :=
              [Log INFO ''Got wsmsg:ack'', Log ANDROID_INFO ''Got an ack on session 0'',
               Log WARNING
                 (''Received a message from unknown peer while already in a '' @
                  ''conversation with a different peer.'')]\<rparr>) \<and>
   json_parse demo_env ''ack'' = Some (JObject [(''janus'', JString ''ack'')]) \<and>
   type_tag_block demo_env (RTC_LOG INFO (''Got wsmsg:'' @ ''ack'') demo_bound)
     (JObject [(''janus'', JString ''ack'')]) =
     Inr (RTC_LOG INFO (''Got wsmsg:'' @ ''ack'') demo_bound) \<and>
   janus_tag_block demo_env (RTC_LOG INFO (''Got wsmsg:'' @ ''ack'') demo_bound)
     (JObject [(''janus'', JString ''ack'')]) =
     Inr (False, session_log ANDROID_INFO ''Got an ack on session ''
                   (RTC_LOG INFO (''Got wsmsg:'' @ ''ack'') demo_bound)) \<and>
   map_of [(''janus'', JString ''ack'')] ''type'' = None \<and>
   optString demo_env (JObject [(''janus'', JString ''ack'')]) ''janus'' \<in>
     set [''ack'', ''trickle'', ''webrtcup'', ''hangup'', ''detached'', ''media'', ''slowlink''] \<and>
   json_parse demo_env ''junk'' = None \<and>
   OnMessageFromPeer demo_env demo_bound 9 ''junk'' =
     Inr (demo_bound\<lparr>trace := trace demo_bound @
            [Log INFO (''Got wsmsg:'' @ ''junk''),
             Log WARNING (''Received unknown message. '' @ ''junk'')]\<rparr>)"
proof -
  let ?j = "JObject [(''janus'', JString ''ack'')]"
  let ?st0 = "RTC_LOG INFO (''Got wsmsg:'' @ ''ack'') demo_bound"
  let ?st2 = "session_log ANDROID_INFO ''Got an ack on session '' ?st0"
  let ?st' = "demo_bound
           \<lparr>trace :=
              [Log INFO ''Got wsmsg:ack'', Log ANDROID_INFO ''Got an ack on session 0'',
               Log WARNING
                 (''Received a message from unknown peer while already in a '' @
                  ''conversation with a different peer.'')]\<rparr>"
  note inst = wrong_peer_message_dropped
                [of demo_bound 9 demo_env "''ack''" ?st' ?j ?st0 ?st2 "[(''janus'', JString ''ack'')]"]
  note inst2 = wrong_peer_message_dropped
                [of demo_bound 9 demo_env "''junk''" ?st' ?j ?st0 ?st2 "[(''janus'', JString ''ack'')]"]
  have h: "peer_connection demo_bound \<noteq> None" "9 \<noteq> peer_id demo_bound"
    by (simp_all add: demo_bound_def)
  have p: "json_parse demo_env ''ack'' = Some ?j" by (rule demo_parse)
  have t: "type_tag_block demo_env ?st0 ?j = Inr ?st0"
    by (simp add: type_tag_block_def GetStringFromJsonObject_simps
        kSessionDescriptionTypeName_def)
  have g: "janus_tag_block demo_env ?st0 ?j = Inr (False, ?st2)"
    by (simp add: janus_tag_block_def optString_simps Let_def)
  have n: "map_of [(''janus'', JString ''ack'')] ''type'' = None"
    "optString demo_env ?j ''janus'' \<in>
     set [''ack'', ''trickle'', ''webrtcup'', ''hangup'', ''detached'', ''media'', ''slowlink'']"
    by (simp_all add: optString_simps)
  have d: "dec_int 0 = ''0''" by code_simp
  from inst h p t g
  have r: "OnMessageFromPeer demo_env demo_bound 9 ''ack'' =
        Inr (RTC_LOG WARNING
               (''Received a message from unknown peer while already in a '' @
                ''conversation with a different peer.'') ?st2)"
    by blast
  have e: "RTC_LOG WARNING
               (''Received a message from unknown peer while already in a '' @
                ''conversation with a different peer.'') ?st2 = ?st'"
    by (simp add: RTC_LOG_def session_log_def emit_def d demo_bound_def)
  from inst h r e have u: "session_untouched demo_bound ?st'" by simp
  from inst2 demo_junk
  have k: "OnMessageFromPeer demo_env demo_bound 9 ''junk'' =
     Inr (demo_bound\<lparr>trace := trace demo_bound @
            [Log INFO (''Got wsmsg:'' @ ''junk''),
             Log WARNING (''Received unknown message. '' @ ''junk'')]\<rparr>)"
    by blast
  from h r e u p t g n demo_junk k show ?thesis by simp
qed

text \<open>
  C1 as stated fails: a \<^verbatim>\<open>success\<close> notification of peer 9, received while
  the conductor is bound to peer 7, calls the success callback of its
  transaction and removes the transaction from the table before the peer
  check refuses the message.
\<close>

theorem wrong_peer_resolves_transaction:
  "peer_connection demo_bound \<noteq> None \<and> 9 \<noteq> peer_id demo_bound \<and>
   transactions demo_bound ''t1'' = Some \<lparr>success = Some 1, error = Some 2, event = None\<rparr> \<and>
   OnMessageFromPeer demo_env demo_bound 9 ''success-t1'' =
     Inr (demo_bound
           \<lparr>transactions := (transactions demo_bound)(''t1'' := None),
            trace :=
              [Log INFO ''Got wsmsg:success-t1'',
               InvokeSuccess 1
                 (JObject [(''janus'', JString ''success''), (''transaction'', JString ''t1'')]),
               Log WARNING
                 (''Received a message from unknown peer while already in a '' @
                  ''conversation with a different peer.'')]\<rparr>) \<and>
   (transactions demo_bound)(''t1'' := None) \<noteq> transactions demo_bound"
proof -
  have a: "OnMessageFromPeer demo_env demo_bound 9 ''success-t1'' =
     Inr (demo_bound
           \<lparr>transactions := (transactions demo_bound)(''t1'' := None),
            trace :=
              [Log INFO ''Got wsmsg:success-t1'',
               InvokeSuccess 1
                 (JObject [(''janus'', JString ''success''), (''transaction'', JString ''t1'')]),
               Log WARNING
                 (''Received a message from unknown peer while already in a '' @
                  ''conversation with a different peer.'')]\<rparr>)"
    by (simp add: OnMessageFromPeer_def demo_parse type_tag_block_def janus_tag_block_def
      optString_simps GetStringFromJsonObject_simps kSessionDescriptionTypeName_def
      resolve_success_def demo_bound_def bind_peer_def
      RTC_LOG_def emit_def Let_def)
  have b: "(transactions demo_bound)(''t1'' := None) \<noteq> transactions demo_bound"
  proof
    assume "(transactions demo_bound)(''t1'' := None) = transactions demo_bound"
    then have "((transactions demo_bound)(''t1'' := None)) ''t1'' = transactions demo_bound ''t1''"
      by (rule arg_cong)
    then show False by (simp add: demo_bound_def)
  qed
  show ?thesis using a b by (simp add: demo_bound_def)
qed

subsection \<open>Transactions\<close>

text \<open>
  A notification whose transaction is in the table calls the callback and
  removes the entry; the same notification once more finds nothing.
\<close>

lemma known_transaction_consumed:
  assumes "transactions st (optString e jo ''transaction'') = Some jt"
  shows "\<exists>st'. resolve_success e st jo = Inr st' \<and>
           transactions st' = (transactions st)(optString e jo ''transaction'' := None) \<and>
           resolve_success e st' jo = Inl NullPointerException"
    and "\<exists>st'. resolve_error e st jo = Inr st' \<and>
           transactions st' = (transactions st)(optString e jo ''transaction'' := None) \<and>
           resolve_error e st' jo = Inl NullPointerException"
  using assms
  by (auto simp add: resolve_success_def resolve_error_def Let_def split: option.splits)

text \<open>
  C7. A \<^verbatim>\<open>success\<close> or \<^verbatim>\<open>error\<close> notification whose transaction is not in the
  table is no benign no-op: the lookup gives null, and the read of the
  callback through it raises \<^verbatim>\<open>NullPointerException\<close>, which nothing in
  \<^verbatim>\<open>OnMessageFromPeer\<close> catches. The branch for \<^verbatim>\<open>event\<close> checks the lookup
  for null; these two do not.
\<close>

theorem unknown_transaction_raises:
  "transactions demo_bound ''t9'' = None \<and>
   OnMessageFromPeer demo_env demo_bound 7 ''error-t9'' = Inl NullPointerException \<and>
   OnMessageFromPeer demo_env demo_bound 7 ''success-t9'' = Inl NullPointerException \<and>
   OnMessageFromPeer demo_env demo_new 7 ''success-t9'' = Inl NullPointerException"
  by (simp add: OnMessageFromPeer_def demo_parse type_tag_block_def janus_tag_block_def
      optString_simps GetStringFromJsonObject_simps kSessionDescriptionTypeName_def
      resolve_error_def resolve_success_def demo_bound_def demo_new_def ConductorWs_new_def
      RTC_LOG_def emit_def Let_def)

subsection \<open>Messages that do not decode\<close>

lemma decode_error_log_bookkeeping [simp]: "is_bookkeeping (decode_error_log err)"
  by (cases err) simp_all

lemma apply_message_decode_error:
  "json_parse e message = Some j \<Longrightarrow> decode e j = Inl err \<Longrightarrow>
   apply_message e st message = Inr (emit (decode_error_log err) st)"
  by (simp add: apply_message_def)

lemma setup_or_bookkeeping_is_quiet:
  "is_bookkeeping c \<or> is_setup_call c \<Longrightarrow> \<not> is_message_action c"
  "is_bookkeeping c \<or> is_setup_call c \<Longrightarrow> \<not> is_renderer_stop c"
  "is_bookkeeping c \<or> is_setup_call c \<Longrightarrow> \<not> is_transport_call c"
  by (cases c; simp)+

lemma undecodable_bound:
  assumes parse: "json_parse e message = Some j" and dec: "decode e j = Inl err"
    and bound: "peer_connection st \<noteq> None"
    and ret: "OnMessageFromPeer e st p message = Inr st'"
  shows "session_untouched st st'"
proof (cases "p = peer_id st")
  case False
  from wrong_peer_frame [OF bound False ret] show ?thesis by simp
next
  case True
  from OnMessageFromPeer_stages [OF parse ret] obtain st1 r st2 where
    s: "type_tag_block e (RTC_LOG INFO (''Got wsmsg:'' @ message) st) j = Inr st1"
       "janus_tag_block e st1 j = Inr (r, st2)"
       "r \<Longrightarrow> st' = st2"
       "\<not> r \<Longrightarrow> \<exists>r2 st3. bind_peer e st2 p = Inr (r2, st3) \<and>
          (if r2 then st' = st3 else apply_message e st3 message = Inr st')"
    by (metis (full_types))
  from gateway_blocks_frame [OF s(1,2)] have f: "session_untouched st st2" by simp
  show ?thesis
  proof (cases r)
    case True
    with s(3) f show ?thesis by simp
  next
    case False
    from f bound \<open>p = peer_id st\<close> have "peer_connection st2 \<noteq> None" "p = peer_id st2"
      by (simp_all add: session_untouched_def)
    with bind_peer_same [of st2 e] s(4) [OF False]
    have "apply_message e st2 message = Inr st'" by auto
    with apply_message_decode_error [OF parse dec, of st2]
    have "st' = emit (decode_error_log err) st2" by simp
    with session_untouched_trans [OF f session_untouched_emit, of "decode_error_log err"]
    show ?thesis by simp
  qed
qed

lemma undecodable_bound_logged:
  assumes parse: "json_parse e message = Some j" and dec: "decode e j = Inl err"
    and bound: "peer_connection st \<noteq> None"
    and t: "type_tag_block e (RTC_LOG INFO (''Got wsmsg:'' @ message) st) j = Inr st1"
    and g: "janus_tag_block e st1 j = Inr (False, st2)"
  shows "OnMessageFromPeer e st (peer_id st) message = Inr (emit (decode_error_log err) st2)"
proof -
  from gateway_blocks_frame [OF t g] have "session_untouched st st2" by simp
  with bound have "peer_connection st2 \<noteq> None" "peer_id st = peer_id st2"
    by (simp_all add: session_untouched_def)
  with bind_peer_same [of st2 e] apply_message_decode_error [OF parse dec, of st2] parse t g
  show ?thesis by (simp add: OnMessageFromPeer_def Let_def)
qed

lemma undecodable_unbound:
  assumes parse: "json_parse e message = Some j" and dec: "decode e j = Inl err"
    and unbound: "peer_connection st = None"
    and init: "factory_created e" "pc_created e True"
    and ret: "OnMessageFromPeer e st p message = Inr st'"
  shows "adds_only (\<lambda>c. is_bookkeeping c \<or> is_setup_call c) st st' \<and>
         loopback st' = loopback st \<and> pending_messages st' = pending_messages st \<and>
         (peer_connection st' = None \<and> peer_id st' = peer_id st \<or>
          peer_connection st' \<noteq> None \<and> peer_id st' = p)"
proof -
  let ?Q = "\<lambda>c. is_bookkeeping c \<or> is_setup_call c"
  from OnMessageFromPeer_stages [OF parse ret] obtain st1 r st2 where
    s: "type_tag_block e (RTC_LOG INFO (''Got wsmsg:'' @ message) st) j = Inr st1"
       "janus_tag_block e st1 j = Inr (r, st2)"
       "r \<Longrightarrow> st' = st2"
       "\<not> r \<Longrightarrow> \<exists>r2 st3. bind_peer e st2 p = Inr (r2, st3) \<and>
          (if r2 then st' = st3 else apply_message e st3 message = Inr st')"
    by (metis (full_types))
  from gateway_blocks_frame [OF s(1,2)] have f: "session_untouched st st2" by simp
  then have q2: "adds_only ?Q st st2"
    using adds_only_mono [of is_bookkeeping st st2 ?Q] by (simp add: session_untouched_def)
  show ?thesis
  proof (cases r)
    case True
    with s(3) f q2 unbound show ?thesis by (simp add: session_untouched_def)
  next
    case False
    from f unbound have n: "peer_connection st2 = None" by (simp add: session_untouched_def)
    from InitializePeerConnection_setup [OF init, of "st2\<lparr>peer_id := p\<rparr>"] obtain st3 where
      i: "InitializePeerConnection e (st2\<lparr>peer_id := p\<rparr>) = Inr (True, st3)"
         "peer_connection st3 \<noteq> None" "peer_id st3 = p" "loopback st3 = loopback st2"
         "pending_messages st3 = pending_messages st2"
         "adds_only is_setup_call (st2\<lparr>peer_id := p\<rparr>) st3"
      by auto
    from i(1) n have b: "bind_peer e st2 p = Inr (False, st3)" by (simp add: bind_peer_def)
    with s(4) [OF False] have "apply_message e st3 message = Inr st'" by auto
    with apply_message_decode_error [OF parse dec, of st3]
    have st': "st' = emit (decode_error_log err) st3" by simp
    have "adds_only is_setup_call st2 st3"
      using i(6) adds_only_from [of "st2\<lparr>peer_id := p\<rparr>" st2 is_setup_call st3] by simp
    then have "adds_only ?Q st2 st3" by (rule adds_only_mono) simp
    from adds_only_trans [OF q2 this] have "adds_only ?Q st st3" .
    then have "adds_only ?Q st st'" unfolding st' by (rule adds_only_emit_after) simp
    with st' i f show ?thesis by (simp add: session_untouched_def)
  qed
qed

text \<open>
  C6, as amended. A message that the reader cannot parse is logged and
  discarded, and nothing else happens. A message that parses but does not
  decode (unknown type, missing member, SDP or candidate text that does not
  parse) leaves a bound session untouched whenever \<^verbatim>\<open>OnMessageFromPeer\<close>
  returns, and when the gateway blocks complete without returning it is
  discarded with the log of the decode error. The peer is bound and the peer
  connection created before the message is decoded: without a session, and
  when the engine can be initialised, such a message ends with no teardown, no
  call on the transport and no description or candidate applied, and a session
  it has created is bound to the sender.
\<close>

theorem undecodable_message_discarded:
  "(json_parse e message = None \<longrightarrow>
      OnMessageFromPeer e st p message =
        Inr (st\<lparr>trace := trace st @
                 [Log INFO (''Got wsmsg:'' @ message),
                  Log WARNING (''Received unknown message. '' @ message)]\<rparr>)) \<and>
   (json_parse e message = Some j \<and> decode e j = Inl err \<and> peer_connection st \<noteq> None \<and>
    OnMessageFromPeer e st p message = Inr st' \<longrightarrow>
      session_untouched st st' \<and>
      filter is_message_action (new_calls st st') = [] \<and>
      filter is_renderer_stop (new_calls st st') = [] \<and>
      filter is_transport_call (new_calls st st') = []) \<and>
   (json_parse e message = Some j \<and> decode e j = Inl err \<and> peer_connection st \<noteq> None \<and>
    type_tag_block e (RTC_LOG INFO (''Got wsmsg:'' @ message) st) j = Inr st1 \<and>
    janus_tag_block e st1 j = Inr (False, st2) \<longrightarrow>
      OnMessageFromPeer e st (peer_id st) message = Inr (emit (decode_error_log err) st2)) \<and>
   (json_parse e message = Some j \<and> decode e j = Inl err \<and> peer_connection st = None \<and>
    factory_created e \<and> pc_created e True \<and>
    OnMessageFromPeer e st p message = Inr st' \<longrightarrow>
      filter is_message_action (new_calls st st') = [] \<and>
      filter is_renderer_stop (new_calls st st') = [] \<and>
      filter is_transport_call (new_calls st st') = [] \<and>
      loopback st' = loopback st \<and> pending_messages st' = pending_messages st \<and>
      (peer_connection st' = None \<and> peer_id st' = peer_id st \<or>
       peer_connection st' \<noteq> None \<and> peer_id st' = p))"
proof (intro conjI impI)
  assume "json_parse e message = None"
  then show "OnMessageFromPeer e st p message =
        Inr (st\<lparr>trace := trace st @
                 [Log INFO (''Got wsmsg:'' @ message),
                  Log WARNING (''Received unknown message. '' @ message)]\<rparr>)"
    by (rule OnMessageFromPeer_unparsed)
next
  assume a: "json_parse e message = Some j \<and> decode e j = Inl err \<and>
    peer_connection st \<noteq> None \<and> OnMessageFromPeer e st p message = Inr st'"
  then have u: "session_untouched st st'" using undecodable_bound by blast
  then show "session_untouched st st'" .
  from session_untouched_quiet [OF u]
  show "filter is_message_action (new_calls st st') = []"
    "filter is_renderer_stop (new_calls st st') = []"
    "filter is_transport_call (new_calls st st') = []"
    by simp_all
next
  assume "json_parse e message = Some j \<and> decode e j = Inl err \<and> peer_connection st \<noteq> None \<and>
    type_tag_block e (RTC_LOG INFO (''Got wsmsg:'' @ message) st) j = Inr st1 \<and>
    janus_tag_block e st1 j = Inr (False, st2)"
  then show "OnMessageFromPeer e st (peer_id st) message =
    Inr (emit (decode_error_log err) st2)"
    using undecodable_bound_logged by blast
next
  assume a: "json_parse e message = Some j \<and> decode e j = Inl err \<and>
    peer_connection st = None \<and> factory_created e \<and> pc_created e True \<and>
    OnMessageFromPeer e st p message = Inr st'"
  then have u: "adds_only (\<lambda>c. is_bookkeeping c \<or> is_setup_call c) st st' \<and>
         loopback st' = loopback st \<and> pending_messages st' = pending_messages st \<and>
         (peer_connection st' = None \<and> peer_id st' = peer_id st \<or>
          peer_connection st' \<noteq> None \<and> peer_id st' = p)"
    using undecodable_unbound [of e message j err st p st'] by blast
  from u show "loopback st' = loopback st" "pending_messages st' = pending_messages st"
    "peer_connection st' = None \<and> peer_id st' = peer_id st \<or>
       peer_connection st' \<noteq> None \<and> peer_id st' = p"
    by simp_all
  from u have q: "adds_only (\<lambda>c. is_bookkeeping c \<or> is_setup_call c) st st'" by simp
  show "filter is_message_action (new_calls st st') = []"
    by (rule adds_only_filter [OF q]) (rule setup_or_bookkeeping_is_quiet)
  show "filter is_renderer_stop (new_calls st st') = []"
    by (rule adds_only_filter [OF q]) (rule setup_or_bookkeeping_is_quiet)
  show "filter is_transport_call (new_calls st st') = []"
    by (rule adds_only_filter [OF q]) (rule setup_or_bookkeeping_is_quiet)
qed

text \<open>
  The witness of C6: a text the reader does not know, and a description of
  the unknown type \<^verbatim>\<open>bogus\<close> received by the bound conductor and by a new one.
\<close>

theorem undecodable_message_discarded_witness:
  "json_parse demo_env ''junk'' = None \<and>
   OnMessageFromPeer demo_env demo_bound 7 ''junk'' =
     Inr (demo_bound\<lparr>trace := trace demo_bound @
            [Log INFO (''Got wsmsg:'' @ ''junk''),
             Log WARNING (''Received unknown message. '' @ ''junk'')]\<rparr>) \<and>
   json_parse demo_env ''bogus'' =
     Some (JObject [(''type'', JString ''bogus''), (''sdp'', JString ''v=0''),
                    (''sender'', JInt 1)]) \<and>
   decode demo_env (JObject [(''type'', JString ''bogus''), (''sdp'', JString ''v=0''),
                    (''sender'', JInt 1)]) = Inl (UnknownSdpType ''bogus'') \<and>
   peer_connection demo_bound \<noteq> None \<and>
   OnMessageFromPeer demo_env demo_bound 7 ''bogus'' =
     Inr (demo_bound\<lparr>trace :=
            [Log INFO ''Got wsmsg:bogus'', Log ANDROID_ERROR ''missing handle'',
             Log LS_ERROR ''Unknown SDP type: bogus'']\<rparr>) \<and>
   session_untouched demo_bound
     (demo_bound\<lparr>trace :=
            [Log INFO ''Got wsmsg:bogus'', Log ANDROID_ERROR ''missing handle'',
             Log LS_ERROR ''Unknown SDP type: bogus'']\<rparr>) \<and>
   type_tag_block demo_env (RTC_LOG INFO (''Got wsmsg:'' @ ''bogus'') demo_bound)
     (JObject [(''type'', JString ''bogus''), (''sdp'', JString ''v=0''), (''sender'', JInt 1)]) =
     Inr (RTC_LOG INFO (''Got wsmsg:'' @ ''bogus'') demo_bound) \<and>
   janus_tag_block demo_env (RTC_LOG INFO (''Got wsmsg:'' @ ''bogus'') demo_bound)
     (JObject [(''type'', JString ''bogus''), (''sdp'', JString ''v=0''), (''sender'', JInt 1)]) =
     Inr (False, emit (Log ANDROID_ERROR ''missing handle'')
                   (RTC_LOG INFO (''Got wsmsg:'' @ ''bogus'') demo_bound)) \<and>
   peer_connection demo_new = None \<and> factory_created demo_env \<and> pc_created demo_env True \<and>
   OnMessageFromPeer demo_env demo_new 7 ''bogus'' =
     Inr \<lparr>peer_id = 7, loopback = False,
          peer_connection =
            Some \<lparr>enable_dtls_srtp = True,
                  senders = [(\<lparr>kind = kAudioKind, label = ''audio_label''\<rparr>, [''stream_id''])]\<rparr>,
          peer_connection_factory = True, server = [], pending_messages = [],
          transactions = Map.empty, handles = (\<lambda>h. False), sessionId = 0,
          trace =
            [ClientRegisterObserver, WndRegisterObserver,
             Log INFO ''Got wsmsg:bogus'', Log ANDROID_ERROR ''missing handle'',
             CreatePeerConnectionFactory,
             FactoryCreatePeerConnection True ''stun:stun.l.google.com:19302'',
             AddTrack \<lparr>kind = kAudioKind, label = ''audio_label''\<rparr> [''stream_id''],
             Log LS_ERROR ''OpenVideoCaptureDevice failed'', SwitchToStreamingUI,
             Log LS_ERROR ''Unknown SDP type: bogus'']\<rparr> \<and>
   filter is_renderer_stop
     (new_calls demo_new
        \<lparr>peer_id = 7, loopback = False,
          peer_connection =
            Some \<lparr>enable_dtls_srtp = True,
                  senders = [(\<lparr>kind = kAudioKind, label = ''audio_label''\<rparr>, [''stream_id''])]\<rparr>,
          peer_connection_factory = True, server = [], pending_messages = [],
          transactions = Map.empty, handles = (\<lambda>h. False), sessionId = 0,
          trace =
            [ClientRegisterObserver, WndRegisterObserver,
             Log INFO ''Got wsmsg:bogus'', Log ANDROID_ERROR ''missing handle'',
             CreatePeerConnectionFactory,
             FactoryCreatePeerConnection True ''stun:stun.l.google.com:19302'',
             AddTrack \<lparr>kind = kAudioKind, label = ''audio_label''\<rparr> [''stream_id''],
             Log LS_ERROR ''OpenVideoCaptureDevice failed'', SwitchToStreamingUI,
             Log LS_ERROR ''Unknown SDP type: bogus'']\<rparr>) = []"
proof -
  let ?j = "JObject [(''type'', JString ''bogus''), (''sdp'', JString ''v=0''),
                    (''sender'', JInt 1)]"
  let ?st0 = "RTC_LOG INFO (''Got wsmsg:'' @ ''bogus'') demo_bound"
  let ?st2 = "emit (Log ANDROID_ERROR ''missing handle'') ?st0"
  let ?b = "demo_bound\<lparr>trace :=
            [Log INFO ''Got wsmsg:bogus'', Log ANDROID_ERROR ''missing handle'',
             Log LS_ERROR ''Unknown SDP type: bogus'']\<rparr>"
  let ?y = "\<lparr>peer_id = 7, loopback = False,
          peer_connection =
            Some \<lparr>enable_dtls_srtp = True,
                  senders = [(\<lparr>kind = kAudioKind, label = ''audio_label''\<rparr>, [''stream_id''])]\<rparr>,
          peer_connection_factory = True, server = [], pending_messages = [],
          transactions = Map.empty, handles = (\<lambda>h. False), sessionId = 0,
          trace =
            [ClientRegisterObserver, WndRegisterObserver,
             Log INFO ''Got wsmsg:bogus'', Log ANDROID_ERROR ''missing handle'',
             CreatePeerConnectionFactory,
             FactoryCreatePeerConnection True ''stun:stun.l.google.com:19302'',
             AddTrack \<lparr>kind = kAudioKind, label = ''audio_label''\<rparr> [''stream_id''],
             Log LS_ERROR ''OpenVideoCaptureDevice failed'', SwitchToStreamingUI,
             Log LS_ERROR ''Unknown SDP type: bogus'']\<rparr>"
  note thm1 = undecodable_message_discarded
                [of demo_env "''junk''" demo_bound 7 ?j "UnknownSdpType ''bogus''" ?b ?st0 ?st2]
  note thm2 = undecodable_message_discarded
                [of demo_env "''bogus''" demo_bound 7 ?j "UnknownSdpType ''bogus''" ?b ?st0 ?st2]
  note thm3 = undecodable_message_discarded
                [of demo_env "''bogus''" demo_new 7 ?j "UnknownSdpType ''bogus''" ?y ?st0 ?st2]
  have p: "json_parse demo_env ''bogus'' = Some ?j" by (rule demo_parse)
  have d: "decode demo_env ?j = Inl (UnknownSdpType ''bogus'')" by (rule decode_bogus)
  have h: "peer_connection demo_bound \<noteq> None" "peer_id demo_bound = 7"
    "peer_connection demo_new = None" "factory_created demo_env" "pc_created demo_env True"
    by (simp_all add: demo_bound_def demo_new_def ConductorWs_new_def demo_env_def)
  have t: "type_tag_block demo_env ?st0 ?j = Inr ?st0"
    by (simp add: type_tag_block_def GetStringFromJsonObject_simps GetStringFromJson_def
        kSessionDescriptionTypeName_def)
  have g: "janus_tag_block demo_env ?st0 ?j = Inr (False, ?st2)"
    by (simp add: janus_tag_block_def sender_block_def sender_one optString_simps Let_def
        demo_bound_def)
  from thm1 demo_junk
  have a: "OnMessageFromPeer demo_env demo_bound 7 ''junk'' =
     Inr (demo_bound\<lparr>trace := trace demo_bound @
            [Log INFO (''Got wsmsg:'' @ ''junk''),
             Log WARNING (''Received unknown message. '' @ ''junk'')]\<rparr>)"
    by blast
  from thm2 p d h(1) t g
  have "OnMessageFromPeer demo_env demo_bound (peer_id demo_bound) ''bogus'' =
          Inr (emit (decode_error_log (UnknownSdpType ''bogus'')) ?st2)"
    by blast
  moreover have "emit (decode_error_log (UnknownSdpType ''bogus'')) ?st2 = ?b"
    by (simp add: emit_def RTC_LOG_def demo_bound_def)
  ultimately have b: "OnMessageFromPeer demo_env demo_bound 7 ''bogus'' = Inr ?b"
    using h(2) by simp
  from thm2 p d h(1) b have u: "session_untouched demo_bound ?b" by blast
  have y: "OnMessageFromPeer demo_env demo_new 7 ''bogus'' = Inr ?y"
    by (simp add: OnMessageFromPeer_def demo_parse type_tag_block_def
        janus_tag_block_def sender_block_def sender_one
        optString_simps GetStringFromJsonObject_simps GetStringFromJson_def
        kSessionDescriptionTypeName_def bind_peer_def InitializePeerConnection_def
        CreatePeerConnection_def AddTracks_def pc_AddTrack_def OpenVideoCaptureDevice_def
        apply_message_def decode_bogus
        demo_new_def ConductorWs_new_def RTC_LOG_def emit_def Let_def
        demo_env_def demo_messages_def)
  from thm3 p d h(3,4,5) y
  have f: "filter is_renderer_stop (new_calls demo_new ?y) = []" by blast
  from demo_junk a p d h b u t g y f show ?thesis by simp
qed

text \<open>
  C6 as stated fails: a new conductor that receives the description of type
  \<^verbatim>\<open>bogus\<close> binds the peer and initialises the engine first; when the factory
  cannot be created, the teardown runs and the conductor signs out, all while
  handling a message that does not decode.
\<close>

theorem undecodable_message_before_failed_init:
  "json_parse (demo_env\<lparr>factory_created := False\<rparr>) ''bogus'' =
     Some (JObject [(''type'', JString ''bogus''), (''sdp'', JString ''v=0''),
                    (''sender'', JInt 1)]) \<and>
   decode (demo_env\<lparr>factory_created := False\<rparr>)
     (JObject [(''type'', JString ''bogus''), (''sdp'', JString ''v=0''),
               (''sender'', JInt 1)]) = Inl (UnknownSdpType ''bogus'') \<and>
   OnMessageFromPeer (demo_env\<lparr>factory_created := False\<rparr>) demo_new 7 ''bogus'' =
     Inr (demo_new
           \<lparr>trace := trace demo_new @
              [Log INFO ''Got wsmsg:bogus'', Log ANDROID_ERROR ''missing handle'',
               CreatePeerConnectionFactory,
               MessageBox ''Error'' ''Failed to initialize PeerConnectionFactory'' True,
               StopLocalRenderer, StopRemoteRenderer,
               Log LS_ERROR ''Failed to initialize our PeerConnection instance'',
               SignOut]\<rparr>)"
proof -
  have "OnMessageFromPeer (demo_env\<lparr>factory_created := False\<rparr>) demo_new 7 ''bogus'' =
     Inr (demo_new
           \<lparr>trace := trace demo_new @
              [Log INFO ''Got wsmsg:bogus'', Log ANDROID_ERROR ''missing handle'',
               CreatePeerConnectionFactory,
               MessageBox ''Error'' ''Failed to initialize PeerConnectionFactory'' True,
               StopLocalRenderer, StopRemoteRenderer,
               Log LS_ERROR ''Failed to initialize our PeerConnection instance'',
               SignOut]\<rparr>)"
    by (simp add: OnMessageFromPeer_def demo_parse_env demo_parse type_tag_block_def
        janus_tag_block_def sender_block_def sender_one
        optString_simps GetStringFromJsonObject_simps GetStringFromJson_def
        kSessionDescriptionTypeName_def bind_peer_def InitializePeerConnection_def
        DeletePeerConnection_def demo_new_def ConductorWs_new_def
        RTC_LOG_def emit_def Let_def)
  then show ?thesis by (simp add: demo_parse_env demo_parse decode_bogus)
qed

subsection \<open>The outbound queue\<close>

lemma delivered_emit [simp]: "delivered (emit c st) = delivered st @ sent_of c"
  by (simp add: delivered_def emit_def)

lemma delivered_RTC_LOG [simp]: "delivered (RTC_LOG s m st) = delivered st"
  by (simp add: RTC_LOG_def)

lemma delivered_update [simp]:
  "delivered (st\<lparr>pending_messages := q\<rparr>) = delivered st"
  "delivered (st\<lparr>peer_id := p\<rparr>) = delivered st"
  by (simp_all add: delivered_def)

lemma DisconnectFromServer_queue [simp]:
  "pending_messages (DisconnectFromServer e st) = pending_messages st"
  "delivered (DisconnectFromServer e st) = delivered st"
  "peer_connection (DisconnectFromServer e st) = peer_connection st"
  "peer_id (DisconnectFromServer e st) = peer_id st"
  by (simp_all add: DisconnectFromServer_def)

lemma SEND_in_flight:
  "IsSendingMessage e \<Longrightarrow>
   pending_messages (UIThreadCallback e st (SEND_MESSAGE_TO_PEER data)) =
     pending_messages st @ (case data of None \<Rightarrow> [] | Some m \<Rightarrow> [m]) \<and>
   delivered (UIThreadCallback e st (SEND_MESSAGE_TO_PEER data)) = delivered st"
  by (simp add: UIThreadCallback_def Let_def split: option.splits list.splits)

lemma SEND_idle:
  "\<not> IsSendingMessage e \<Longrightarrow>
   pending_messages st @ (case data of None \<Rightarrow> [] | Some m \<Rightarrow> [m]) = m # rest \<Longrightarrow>
   pending_messages (UIThreadCallback e st (SEND_MESSAGE_TO_PEER data)) = rest \<and>
   delivered (UIThreadCallback e st (SEND_MESSAGE_TO_PEER data)) = delivered st @ [m]"
  by (auto simp add: UIThreadCallback_def Let_def split: option.splits list.splits)

lemma SEND_empty:
  "pending_messages st = [] \<Longrightarrow>
   pending_messages (UIThreadCallback e st (SEND_MESSAGE_TO_PEER None)) = [] \<and>
   delivered (UIThreadCallback e st (SEND_MESSAGE_TO_PEER None)) = delivered st"
  by (simp add: UIThreadCallback_def Let_def)

lemma SEND_fifo:
  "delivered (UIThreadCallback e st (SEND_MESSAGE_TO_PEER data)) @
   pending_messages (UIThreadCallback e st (SEND_MESSAGE_TO_PEER data)) =
     delivered st @ pending_messages st @ (case data of None \<Rightarrow> [] | Some m \<Rightarrow> [m])"
proof (cases "IsSendingMessage e")
  case True
  from SEND_in_flight [OF this, of st data] show ?thesis by simp
next
  case False
  show ?thesis
  proof (cases "pending_messages st @ (case data of None \<Rightarrow> [] | Some m \<Rightarrow> [m])")
    case Nil
    then have "pending_messages st = []" "data = None" by (auto split: option.splits)
    with SEND_empty [of st e] show ?thesis by simp
  next
    case (Cons m rest)
    from SEND_idle [OF False Cons] Cons show ?thesis by simp
  qed
qed

text \<open>
  \<^verbatim>\<open>SendMessage\<close> and \<^verbatim>\<open>OnMessageSent\<close> queue one callback each, so a step of
  the queue runs \<^verbatim>\<open>UIThreadCallback\<close> once, with what the conductor queued.
\<close>

lemma queued_by_SendMessage:
  "queued_by st (SendMessage m st) = [SEND_MESSAGE_TO_PEER (Some m)]"
  by (simp add: queued_by_def new_calls_def SendMessage_def emit_def)

lemma queued_by_OnMessageSent:
  "queued_by st (OnMessageSent st err) = [SEND_MESSAGE_TO_PEER None]"
  by (simp add: queued_by_def new_calls_def OnMessageSent_def emit_def)

lemma queue_step_Enqueue:
  "queue_step e (st, busy) (Enqueue m) =
     run_callback e (SendMessage m st, busy) (SEND_MESSAGE_TO_PEER (Some m))"
  by (simp add: run_queued_def queued_by_SendMessage)

lemma queue_step_Complete:
  "queue_step e (st, busy) DeliveryComplete =
     run_callback e (OnMessageSent st 0, False) (SEND_MESSAGE_TO_PEER None)"
  by (simp add: run_queued_def queued_by_OnMessageSent)

declare queue_step.simps [simp del]

lemma queue_step_fifo:
  "delivered (fst (queue_step e sb ev)) @ pending_messages (fst (queue_step e sb ev)) =
     delivered (fst sb) @ pending_messages (fst sb) @ enqueued [ev]"
proof (cases sb)
  case (Pair st busy)
  show ?thesis
  proof (cases ev)
    case (Enqueue m)
    with Pair SEND_fifo [of "e\<lparr>IsSendingMessage := busy\<rparr>" "SendMessage m st" "Some m"]
    show ?thesis by (simp add: queue_step_Enqueue queue_step_Complete run_callback_def Let_def SendMessage_def)
  next
    case DeliveryComplete
    with Pair SEND_fifo [of "e\<lparr>IsSendingMessage := False\<rparr>" "OnMessageSent st 0" None]
    show ?thesis by (simp add: queue_step_Enqueue queue_step_Complete run_callback_def Let_def OnMessageSent_def)
  qed
qed

lemma queue_run_fifo:
  "delivered (fst (queue_run e sb evs)) @ pending_messages (fst (queue_run e sb evs)) =
     delivered (fst sb) @ pending_messages (fst sb) @ enqueued evs"
proof (induction evs arbitrary: sb)
  case Nil
  show ?case by (simp add: queue_run_def)
next
  case (Cons ev evs)
  have "queue_run e sb (ev # evs) = queue_run e (queue_step e sb ev) evs"
    by (simp add: queue_run_def)
  with Cons.IH [of "queue_step e sb ev"] queue_step_fifo [of e sb ev]
  show ?case by (cases ev) simp_all
qed

lemma step_complete:
  "pending_messages (fst (queue_step e (st, busy) DeliveryComplete)) = tl (pending_messages st)"
  by (simp add: queue_step_Enqueue queue_step_Complete run_callback_def Let_def OnMessageSent_def UIThreadCallback_def
      split: list.splits)

lemma step_enqueue_idle_empty:
  "pending_messages st = [] \<Longrightarrow>
   pending_messages (fst (queue_step e (st, False) (Enqueue m))) = []"
  by (simp add: queue_step_Enqueue queue_step_Complete run_callback_def Let_def SendMessage_def UIThreadCallback_def)

lemma step_enqueue_length:
  "length (pending_messages (fst (queue_step e (st, busy) (Enqueue m)))) \<le>
     Suc (length (pending_messages st))"
proof (cases busy)
  case True
  with SEND_in_flight [of "e\<lparr>IsSendingMessage := busy\<rparr>" "SendMessage m st" "Some m"]
  show ?thesis by (simp add: queue_step_Enqueue queue_step_Complete run_callback_def Let_def SendMessage_def)
next
  case False
  obtain x rest where c: "pending_messages (SendMessage m st) @ [m] = x # rest"
    by (cases "pending_messages (SendMessage m st) @ [m]") simp_all
  from c have "pending_messages st @ [m] = x # rest" by (simp add: SendMessage_def)
  then have "length (pending_messages st @ [m]) = length (x # rest)" by (rule arg_cong)
  then have "length rest = length (pending_messages st)" by simp
  with False c
    SEND_idle [of "e\<lparr>IsSendingMessage := busy\<rparr>" "SendMessage m st" "Some m" x rest]
  show ?thesis by (simp add: queue_step_Enqueue queue_step_Complete run_callback_def Let_def)
qed

lemma three_enqueued_three_completed:
  assumes "pending_messages st = []"
  shows "delivered (fst (queue_run e (st, False)
            [Enqueue a, Enqueue b, Enqueue c,
             DeliveryComplete, DeliveryComplete, DeliveryComplete])) = delivered st @ [a, b, c] \<and>
         pending_messages (fst (queue_run e (st, False)
            [Enqueue a, Enqueue b, Enqueue c,
             DeliveryComplete, DeliveryComplete, DeliveryComplete])) = []"
proof -
  define s1 where "s1 = queue_step e (st, False) (Enqueue a)"
  define s2 where "s2 = queue_step e s1 (Enqueue b)"
  define s3 where "s3 = queue_step e s2 (Enqueue c)"
  define s4 where "s4 = queue_step e s3 DeliveryComplete"
  define s5 where "s5 = queue_step e s4 DeliveryComplete"
  define s6 where "s6 = queue_step e s5 DeliveryComplete"
  have run: "queue_run e (st, False)
            [Enqueue a, Enqueue b, Enqueue c,
             DeliveryComplete, DeliveryComplete, DeliveryComplete] = s6"
    by (simp add: queue_run_def s1_def s2_def s3_def s4_def s5_def s6_def)
  have p1: "pending_messages (fst s1) = []"
    unfolding s1_def using assms by (rule step_enqueue_idle_empty)
  have "length (pending_messages (fst s2)) \<le> Suc (length (pending_messages (fst s1)))"
    unfolding s2_def using step_enqueue_length [of e "fst s1" "snd s1" b] by simp
  with p1 have p2: "length (pending_messages (fst s2)) \<le> 1" by simp
  have "length (pending_messages (fst s3)) \<le> Suc (length (pending_messages (fst s2)))"
    unfolding s3_def using step_enqueue_length [of e "fst s2" "snd s2" c] by simp
  with p2 have p3: "length (pending_messages (fst s3)) \<le> 2" by simp
  have p4: "pending_messages (fst s4) = tl (pending_messages (fst s3))"
    unfolding s4_def using step_complete [of e "fst s3" "snd s3"] by simp
  have p5: "pending_messages (fst s5) = tl (pending_messages (fst s4))"
    unfolding s5_def using step_complete [of e "fst s4" "snd s4"] by simp
  have p6: "pending_messages (fst s6) = tl (pending_messages (fst s5))"
    unfolding s6_def using step_complete [of e "fst s5" "snd s5"] by simp
  from p3 p4 p5 p6 have e6: "pending_messages (fst s6) = []"
    by (cases "pending_messages (fst s3)"; cases "tl (pending_messages (fst s3))") auto
  from queue_run_fifo [of e "(st, False)" "[Enqueue a, Enqueue b, Enqueue c,
             DeliveryComplete, DeliveryComplete, DeliveryComplete]"] run e6 assms
  show ?thesis by simp
qed

lemma step_enqueue_busy:
  "snd (queue_step e (st, True) (Enqueue m)) \<and>
   pending_messages (fst (queue_step e (st, True) (Enqueue m))) = pending_messages st @ [m] \<and>
   delivered (fst (queue_step e (st, True) (Enqueue m))) = delivered st"
  by (simp add: queue_step_Enqueue queue_step_Complete run_callback_def Let_def SendMessage_def UIThreadCallback_def
      split: list.splits)

lemma step_enqueue_accepted:
  "\<forall>p m. send_to_peer_ok e p m \<Longrightarrow> pending_messages st = [] \<Longrightarrow>
   snd (queue_step e (st, False) (Enqueue m)) \<and>
   pending_messages (fst (queue_step e (st, False) (Enqueue m))) = [] \<and>
   delivered (fst (queue_step e (st, False) (Enqueue m))) = delivered st @ [m]"
  by (simp add: queue_step_Enqueue queue_step_Complete run_callback_def Let_def SendMessage_def UIThreadCallback_def)

lemma step_complete_accepted:
  "\<forall>p m. send_to_peer_ok e p m \<Longrightarrow> pending_messages st = m # rest \<Longrightarrow>
   snd (queue_step e (st, busy) DeliveryComplete) \<and>
   pending_messages (fst (queue_step e (st, busy) DeliveryComplete)) = rest \<and>
   delivered (fst (queue_step e (st, busy) DeliveryComplete)) = delivered st @ [m]"
  by (simp add: queue_step_Enqueue queue_step_Complete run_callback_def Let_def OnMessageSent_def UIThreadCallback_def)

lemma one_in_flight:
  assumes acc: "\<forall>p m. send_to_peer_ok e p m" and emp: "pending_messages st = []"
  shows "\<exists>s3 s4 s5.
     queue_run e (st, False) [Enqueue a, Enqueue b, Enqueue c] = (s3, True) \<and>
     delivered s3 = delivered st @ [a] \<and> pending_messages s3 = [b, c] \<and>
     queue_step e (s3, True) DeliveryComplete = (s4, True) \<and>
     delivered s4 = delivered st @ [a, b] \<and> pending_messages s4 = [c] \<and>
     queue_step e (s4, True) DeliveryComplete = (s5, True) \<and>
     delivered s5 = delivered st @ [a, b, c] \<and> pending_messages s5 = []"
proof -
  define s1 where "s1 = fst (queue_step e (st, False) (Enqueue a))"
  define s2 where "s2 = fst (queue_step e (s1, True) (Enqueue b))"
  define s3 where "s3 = fst (queue_step e (s2, True) (Enqueue c))"
  define s4 where "s4 = fst (queue_step e (s3, True) DeliveryComplete)"
  define s5 where "s5 = fst (queue_step e (s4, True) DeliveryComplete)"
  from step_enqueue_accepted [OF acc emp, of a]
  have f1: "queue_step e (st, False) (Enqueue a) = (s1, True)"
    "pending_messages s1 = []" "delivered s1 = delivered st @ [a]"
    by (simp_all add: s1_def prod_eq_iff)
  from step_enqueue_busy [of e s1 b] f1
  have f2: "queue_step e (s1, True) (Enqueue b) = (s2, True)"
    "pending_messages s2 = [b]" "delivered s2 = delivered st @ [a]"
    by (simp_all add: s2_def prod_eq_iff)
  from step_enqueue_busy [of e s2 c] f2
  have f3: "queue_step e (s2, True) (Enqueue c) = (s3, True)"
    "pending_messages s3 = [b, c]" "delivered s3 = delivered st @ [a]"
    by (simp_all add: s3_def prod_eq_iff)
  from step_complete_accepted [OF acc f3(2), of True] f3
  have f4: "queue_step e (s3, True) DeliveryComplete = (s4, True)"
    "pending_messages s4 = [c]" "delivered s4 = delivered st @ [a, b]"
    by (simp_all add: s4_def prod_eq_iff)
  from step_complete_accepted [OF acc f4(2), of True] f4
  have f5: "queue_step e (s4, True) DeliveryComplete = (s5, True)"
    "pending_messages s5 = []" "delivered s5 = delivered st @ [a, b, c]"
    by (simp_all add: s5_def prod_eq_iff)
  have "queue_run e (st, False) [Enqueue a, Enqueue b, Enqueue c] = (s3, True)"
    using f1(1) f2(1) f3(1) by (simp add: queue_run_def)
  with f3 f4 f5 show ?thesis by (intro exI [of _ s3] exI [of _ s4] exI [of _ s5]) simp
qed

text \<open>
  C3. The UI thread runs the callbacks that \<^verbatim>\<open>SendMessage\<close> and
  \<^verbatim>\<open>OnMessageSent\<close> queue. Whatever the transport answers, the messages handed
  to \<^verbatim>\<open>SendToPeer\<close> followed by the messages still queued are the messages
  enqueued, in their order. While a send is in flight the callback sends nothing and removes
  nothing from the queue. Enqueueing \<open>a\<close>, \<open>b\<close>, \<open>c\<close> on an empty queue and
  completing three deliveries hands over \<open>a\<close>, \<open>b\<close>, \<open>c\<close> in that order and
  empties the queue; when the transport accepts what it is given, \<open>b\<close> and
  \<open>c\<close> wait in the queue while \<open>a\<close> is in flight, and each completion hands
  over the next one.
\<close>

theorem outbound_queue_fifo:
  "delivered (fst (queue_run e (st, busy) evs)) @
   pending_messages (fst (queue_run e (st, busy) evs)) =
     delivered st @ pending_messages st @ enqueued evs \<and>
   (IsSendingMessage e \<longrightarrow>
      pending_messages (UIThreadCallback e st (SEND_MESSAGE_TO_PEER data)) =
        pending_messages st @ (case data of None \<Rightarrow> [] | Some m \<Rightarrow> [m]) \<and>
      delivered (UIThreadCallback e st (SEND_MESSAGE_TO_PEER data)) = delivered st) \<and>
   (pending_messages st = [] \<longrightarrow>
      delivered (fst (queue_run e (st, False)
         [Enqueue a, Enqueue b, Enqueue c,
          DeliveryComplete, DeliveryComplete, DeliveryComplete])) = delivered st @ [a, b, c] \<and>
      pending_messages (fst (queue_run e (st, False)
         [Enqueue a, Enqueue b, Enqueue c,
          DeliveryComplete, DeliveryComplete, DeliveryComplete])) = []) \<and>
   ((\<forall>p m. send_to_peer_ok e p m) \<and> pending_messages st = [] \<longrightarrow>
      (\<exists>s3 s4 s5.
         queue_run e (st, False) [Enqueue a, Enqueue b, Enqueue c] = (s3, True) \<and>
         delivered s3 = delivered st @ [a] \<and> pending_messages s3 = [b, c] \<and>
         queue_step e (s3, True) DeliveryComplete = (s4, True) \<and>
         delivered s4 = delivered st @ [a, b] \<and> pending_messages s4 = [c] \<and>
         queue_step e (s4, True) DeliveryComplete = (s5, True) \<and>
         delivered s5 = delivered st @ [a, b, c] \<and> pending_messages s5 = []))"
  using queue_run_fifo [of e "(st, busy)" evs] SEND_in_flight [of e st data]
    three_enqueued_three_completed [of st e a b c] one_in_flight [of e st a b c]
  by simp

text \<open>
  The witness of C3: the messages \<^verbatim>\<open>A\<close>, \<^verbatim>\<open>B\<close>, \<^verbatim>\<open>C\<close> on the bound
  conductor.
\<close>

theorem outbound_queue_fifo_witness:
  "IsSendingMessage (demo_env\<lparr>IsSendingMessage := True\<rparr>) \<and>
   pending_messages
     (UIThreadCallback (demo_env\<lparr>IsSendingMessage := True\<rparr>)
        (demo_bound\<lparr>pending_messages := [''A'']\<rparr>) (SEND_MESSAGE_TO_PEER None)) = [''A''] \<and>
   delivered
     (UIThreadCallback (demo_env\<lparr>IsSendingMessage := True\<rparr>)
        (demo_bound\<lparr>pending_messages := [''A'']\<rparr>) (SEND_MESSAGE_TO_PEER None)) = [] \<and>
   pending_messages demo_bound = [] \<and>
   delivered (fst (queue_run demo_env (demo_bound, False)
      [Enqueue ''A'', Enqueue ''B'', Enqueue ''C'',
       DeliveryComplete, DeliveryComplete, DeliveryComplete])) = [''A'', ''B'', ''C''] \<and>
   pending_messages (fst (queue_run demo_env (demo_bound, False)
      [Enqueue ''A'', Enqueue ''B'', Enqueue ''C'',
       DeliveryComplete, DeliveryComplete, DeliveryComplete])) = [] \<and>
   (\<forall>p m. send_to_peer_ok demo_env p m) \<and>
   (\<exists>s3. queue_run demo_env (demo_bound, False) [Enqueue ''A'', Enqueue ''B'', Enqueue ''C''] =
           (s3, True) \<and>
         delivered s3 = [''A''] \<and> pending_messages s3 = [''B'', ''C''])"
proof -
  let ?busy = "demo_env\<lparr>IsSendingMessage := True\<rparr>"
  let ?q = "demo_bound\<lparr>pending_messages := [''A'']\<rparr>"
  have h: "IsSendingMessage ?busy" "pending_messages demo_bound = []"
    "\<forall>p m. send_to_peer_ok demo_env p m" "delivered demo_bound = []"
    "delivered ?q = []" "pending_messages ?q = [''A'']"
    by (simp_all add: demo_env_def demo_bound_def delivered_def)
  from outbound_queue_fifo [of ?busy ?q False "[]" None "''A''" "''B''" "''C''"] h(1)
  have a: "pending_messages (UIThreadCallback ?busy ?q (SEND_MESSAGE_TO_PEER None)) =
        pending_messages ?q @ (case None of None \<Rightarrow> [] | Some m \<Rightarrow> [m]) \<and>
      delivered (UIThreadCallback ?busy ?q (SEND_MESSAGE_TO_PEER None)) = delivered ?q"
    by blast
  note inst = outbound_queue_fifo [of demo_env demo_bound False "[]" None "''A''" "''B''" "''C''"]
  from inst h(2)
  have b: "delivered (fst (queue_run demo_env (demo_bound, False)
      [Enqueue ''A'', Enqueue ''B'', Enqueue ''C'',
       DeliveryComplete, DeliveryComplete, DeliveryComplete])) = delivered demo_bound @ [''A'', ''B'', ''C''] \<and>
   pending_messages (fst (queue_run demo_env (demo_bound, False)
      [Enqueue ''A'', Enqueue ''B'', Enqueue ''C'',
       DeliveryComplete, DeliveryComplete, DeliveryComplete])) = []"
    by blast
  from inst h(2,3)
  have "\<exists>s3 s4 s5.
         queue_run demo_env (demo_bound, False) [Enqueue ''A'', Enqueue ''B'', Enqueue ''C''] =
           (s3, True) \<and>
         delivered s3 = delivered demo_bound @ [''A''] \<and> pending_messages s3 = [''B'', ''C''] \<and>
         queue_step demo_env (s3, True) DeliveryComplete = (s4, True) \<and>
         delivered s4 = delivered demo_bound @ [''A'', ''B''] \<and> pending_messages s4 = [''C''] \<and>
         queue_step demo_env (s4, True) DeliveryComplete = (s5, True) \<and>
         delivered s5 = delivered demo_bound @ [''A'', ''B'', ''C''] \<and> pending_messages s5 = []"
    by blast
  then have c: "\<exists>s3. queue_run demo_env (demo_bound, False)
           [Enqueue ''A'', Enqueue ''B'', Enqueue ''C''] = (s3, True) \<and>
         delivered s3 = [''A''] \<and> pending_messages s3 = [''B'', ''C'']"
    using h(4) by auto
  from h a b c show ?thesis by simp
qed

subsection \<open>A failed send\<close>

lemma send_failure_signs_out:
  assumes "\<not> IsSendingMessage e" "pending_messages st = m # rest"
    "\<not> send_to_peer_ok e (peer_id st) m" "peer_id st \<noteq> - 1" "peer_connection st \<noteq> None"
  shows "UIThreadCallback e st (SEND_MESSAGE_TO_PEER None) =
     st\<lparr>pending_messages := rest,
        trace := trace st @
          [Log INFO ''SEND_MESSAGE_TO_PEER'', SendToPeer (peer_id st) m,
           Log LS_ERROR ''SendToPeer failed''] @ (if is_connected e then [SignOut] else [])\<rparr>"
  using assms
  by (auto simp add: UIThreadCallback_def DisconnectFromServer_def RTC_LOG_def emit_def Let_def)

lemma session_after_disconnect:
  assumes "factory_created e" "pc_created e True" "RTC_DCHECK_IS_ON e \<longrightarrow> q \<noteq> - 1"
  shows "\<exists>st2. ConnectToPeer e (OnDisconnected e' st1) q = Inr st2 \<and> peer_id st2 = q \<and>
           connection_active st2"
proof -
  let ?idle = "OnDisconnected e' st1"
  have n: "peer_connection ?idle = None" "peer_id ?idle = - 1"
    by (simp_all add: OnDisconnected_def Let_def)
  from InitializePeerConnection_setup [OF assms(1,2), of ?idle] obtain st' where
    i: "InitializePeerConnection e ?idle = Inr (True, st')" "peer_connection st' \<noteq> None"
    by blast
  let ?st2 = "emit CreateOffer (st'\<lparr>peer_id := q\<rparr>)"
  have "ConnectToPeer e ?idle q = Inr ?st2"
    using i n assms(3) by (simp add: ConnectToPeer_def)
  moreover have "peer_id ?st2 = q" "connection_active ?st2"
    using i by (simp_all add: connection_active_def)
  ultimately show ?thesis by blast
qed

text \<open>
  C8, as amended. When \<^verbatim>\<open>SendToPeer\<close> fails while a peer is bound, the
  callback logs the failure and signs out from the transport if the client is
  connected; it does not tear the session down itself. The teardown is run by
  \<^verbatim>\<open>OnDisconnected\<close>, through which the client reports the end of the
  connection, and after it \<^verbatim>\<open>ConnectToPeer\<close> starts a new session when the
  engine can be initialised; in a build with debug checks the peer asked for
  must not be \<open>-1\<close>, which the check of line 456 refuses.
\<close>

theorem send_failure_signs_out_then_disconnect_tears_down:
  "(\<not> IsSendingMessage e \<and> pending_messages st = m # rest \<and>
    \<not> send_to_peer_ok e (peer_id st) m \<and> peer_id st \<noteq> - 1 \<and> peer_connection st \<noteq> None \<longrightarrow>
      UIThreadCallback e st (SEND_MESSAGE_TO_PEER None) =
        st\<lparr>pending_messages := rest,
           trace := trace st @
             [Log INFO ''SEND_MESSAGE_TO_PEER'', SendToPeer (peer_id st) m,
              Log LS_ERROR ''SendToPeer failed''] @
             (if is_connected e then [SignOut] else [])\<rparr>) \<and>
   torn_down st1 (OnDisconnected e' st1) \<and>
   (factory_created e \<and> pc_created e True \<and> (RTC_DCHECK_IS_ON e \<longrightarrow> q \<noteq> - 1) \<longrightarrow>
      (\<exists>st2. ConnectToPeer e (OnDisconnected e' st1) q = Inr st2 \<and> peer_id st2 = q \<and>
             connection_active st2))"
  using send_failure_signs_out [of e st m rest] torn_down_OnDisconnected [of st1 e']
    session_after_disconnect [where e = e and e' = e' and ?st1.0 = st1 and q = q]
  by blast

text \<open>
  The witness of C8: the bound conductor fails to send \<^verbatim>\<open>hello\<close>, is
  disconnected, and connects to peer 9.
\<close>

theorem send_failure_signs_out_then_disconnect_tears_down_witness:
  "\<not> IsSendingMessage (demo_env\<lparr>send_to_peer_ok := (\<lambda>p m. False)\<rparr>) \<and>
   pending_messages (demo_bound\<lparr>pending_messages := [''hello'']\<rparr>) = ''hello'' # [] \<and>
   \<not> send_to_peer_ok (demo_env\<lparr>send_to_peer_ok := (\<lambda>p m. False)\<rparr>)
       (peer_id (demo_bound\<lparr>pending_messages := [''hello'']\<rparr>)) ''hello'' \<and>
   peer_id (demo_bound\<lparr>pending_messages := [''hello'']\<rparr>) \<noteq> - 1 \<and>
   peer_connection (demo_bound\<lparr>pending_messages := [''hello'']\<rparr>) \<noteq> None \<and>
   UIThreadCallback (demo_env\<lparr>send_to_peer_ok := (\<lambda>p m. False)\<rparr>)
     (demo_bound\<lparr>pending_messages := [''hello'']\<rparr>) (SEND_MESSAGE_TO_PEER None) =
     demo_bound\<lparr>pending_messages := [],
       trace := [Log INFO ''SEND_MESSAGE_TO_PEER'', SendToPeer 7 ''hello'',
                 Log LS_ERROR ''SendToPeer failed'', SignOut]\<rparr> \<and>
   factory_created (demo_env\<lparr>RTC_DCHECK_IS_ON := True\<rparr>) \<and>
   pc_created (demo_env\<lparr>RTC_DCHECK_IS_ON := True\<rparr>) True \<and>
   RTC_DCHECK_IS_ON (demo_env\<lparr>RTC_DCHECK_IS_ON := True\<rparr>) \<and> (9 :: int) \<noteq> - 1 \<and>
   (\<exists>st2. ConnectToPeer (demo_env\<lparr>RTC_DCHECK_IS_ON := True\<rparr>)
            (OnDisconnected demo_env demo_bound) 9 = Inr st2 \<and>
          peer_id st2 = 9 \<and> connection_active st2)"
proof -
  let ?e = "demo_env\<lparr>send_to_peer_ok := (\<lambda>p m. False)\<rparr>"
  let ?debug = "demo_env\<lparr>RTC_DCHECK_IS_ON := True\<rparr>"
  let ?st = "demo_bound\<lparr>pending_messages := [''hello'']\<rparr>"
  have h: "\<not> IsSendingMessage ?e" "pending_messages ?st = ''hello'' # []"
    "\<not> send_to_peer_ok ?e (peer_id ?st) ''hello''" "peer_id ?st \<noteq> - 1"
    "peer_connection ?st \<noteq> None" "factory_created ?debug" "pc_created ?debug True"
    "is_connected ?e" "peer_id ?st = 7" "trace ?st = []"
    "RTC_DCHECK_IS_ON ?debug" "(9 :: int) \<noteq> - 1"
    by (simp_all add: demo_env_def demo_bound_def)
  from send_failure_signs_out_then_disconnect_tears_down
         [where e = ?e and st = ?st and m = "''hello''" and rest = "[]" and ?st1.0 = demo_bound
            and e' = demo_env and q = 9] h(1-5)
  have "UIThreadCallback ?e ?st (SEND_MESSAGE_TO_PEER None) =
        ?st\<lparr>pending_messages := [],
           trace := trace ?st @
             [Log INFO ''SEND_MESSAGE_TO_PEER'', SendToPeer (peer_id ?st) ''hello'',
              Log LS_ERROR ''SendToPeer failed''] @
             (if is_connected ?e then [SignOut] else [])\<rparr>"
    by blast
  then have a: "UIThreadCallback ?e ?st (SEND_MESSAGE_TO_PEER None) =
     demo_bound\<lparr>pending_messages := [],
       trace := [Log INFO ''SEND_MESSAGE_TO_PEER'', SendToPeer 7 ''hello'',
                 Log LS_ERROR ''SendToPeer failed'', SignOut]\<rparr>"
    using h(8,9,10) by simp
  from send_failure_signs_out_then_disconnect_tears_down
         [where e = ?debug and st = ?st and m = "''hello''" and rest = "[]"
            and ?st1.0 = demo_bound and e' = demo_env and q = 9] h(6,7,12)
  have b: "\<exists>st2. ConnectToPeer ?debug (OnDisconnected demo_env demo_bound) 9 = Inr st2 \<and>
          peer_id st2 = 9 \<and> connection_active st2"
    by blast
  from h a b show ?thesis by simp
qed

text \<open>
  C8 as stated fails: after the failed send the peer connection is still
  there and peer 7 is still bound, no renderer has been stopped; and when the
  client is not connected, the callback does not even sign out.
\<close>

theorem send_failure_leaves_session_bound:
  "UIThreadCallback (demo_env\<lparr>send_to_peer_ok := (\<lambda>p m. False)\<rparr>)
     (demo_bound\<lparr>pending_messages := [''hello'']\<rparr>) (SEND_MESSAGE_TO_PEER None) =
     demo_bound\<lparr>pending_messages := [],
       trace := [Log INFO ''SEND_MESSAGE_TO_PEER'', SendToPeer 7 ''hello'',
                 Log LS_ERROR ''SendToPeer failed'', SignOut]\<rparr> \<and>
   connection_active
     (UIThreadCallback (demo_env\<lparr>send_to_peer_ok := (\<lambda>p m. False)\<rparr>)
        (demo_bound\<lparr>pending_messages := [''hello'']\<rparr>) (SEND_MESSAGE_TO_PEER None)) \<and>
   peer_id
     (UIThreadCallback (demo_env\<lparr>send_to_peer_ok := (\<lambda>p m. False)\<rparr>)
        (demo_bound\<lparr>pending_messages := [''hello'']\<rparr>) (SEND_MESSAGE_TO_PEER None)) = 7 \<and>
   \<not> torn_down (demo_bound\<lparr>pending_messages := [''hello'']\<rparr>)
     (UIThreadCallback (demo_env\<lparr>send_to_peer_ok := (\<lambda>p m. False)\<rparr>)
        (demo_bound\<lparr>pending_messages := [''hello'']\<rparr>) (SEND_MESSAGE_TO_PEER None)) \<and>
   UIThreadCallback (demo_env\<lparr>send_to_peer_ok := (\<lambda>p m. False), is_connected := False\<rparr>)
     (demo_bound\<lparr>pending_messages := [''hello'']\<rparr>) (SEND_MESSAGE_TO_PEER None) =
     demo_bound\<lparr>pending_messages := [],
       trace := [Log INFO ''SEND_MESSAGE_TO_PEER'', SendToPeer 7 ''hello'',
                 Log LS_ERROR ''SendToPeer failed'']\<rparr>"
  by (simp add: UIThreadCallback_def DisconnectFromServer_def RTC_LOG_def emit_def Let_def
      demo_env_def demo_bound_def torn_down_def connection_active_def)

end
